theory Spec2Isabelle
  imports Main "HOL-Library.Word" "HOL-Library.Sublist"
begin

unbundle bit_operations_syntax

section \<open>Strings\<close>

text \<open>
  A Go string is a sequence of bytes; \<open>string\<close> (a list of 8-bit \<open>char\<close>s) is the same
  thing. The functions of Go's \<open>strings\<close> and \<open>unicode/utf8\<close> packages that the
  package \<open>envutil\<close> calls are written out below, as the Go library documents them; only
  the Unicode case tables are left as a parameter.
\<close>

definition byte :: "char \<Rightarrow> nat" where
  "byte c = of_char c"

definition isASCII :: "char \<Rightarrow> bool" where
  \<comment> \<open>\<open>c < utf8.RuneSelf\<close>\<close>
  "isASCII c = (byte c < 128)"

definition upperASCII :: "char \<Rightarrow> char" where
  \<comment> \<open>\<open>if 'a' <= c && c <= 'z' { c -= 'a' - 'A' }\<close>\<close>
  "upperASCII c = (if 97 \<le> byte c \<and> byte c \<le> 122 then char_of (byte c - 32) else c)"

definition lowerASCII :: "char \<Rightarrow> char" where
  \<comment> \<open>\<open>if 'A' <= c && c <= 'Z' { c += 'a' - 'A' }\<close>\<close>
  "lowerASCII c = (if 65 \<le> byte c \<and> byte c \<le> 90 then char_of (byte c + 32) else c)"

subsection \<open>UTF-8\<close>

type_synonym rune = int

definition RuneError :: rune where
  "RuneError = 0xFFFD"

definition cont :: "char \<Rightarrow> bool" where
  \<comment> \<open>a continuation byte, \<open>0x80 .. 0xBF\<close>\<close>
  "cont c = (128 \<le> byte c \<and> byte c \<le> 191)"

definition payload :: "char \<Rightarrow> int" where
  \<comment> \<open>the low six bits of a continuation byte\<close>
  "payload c = int (byte c mod 64)"

fun DecodeRuneInString :: "string \<Rightarrow> rune \<times> nat" where
  "DecodeRuneInString [] = (RuneError, 0)"
| "DecodeRuneInString (b0 # s) =
     (let x = byte b0 in
      if x < 128 then (int x, 1)
      else if 194 \<le> x \<and> x \<le> 223 then
        (case s of
           b1 # _ \<Rightarrow> if cont b1 then (int (x mod 32) * 64 + payload b1, 2) else (RuneError, 1)
         | _ \<Rightarrow> (RuneError, 1))
      else if 224 \<le> x \<and> x \<le> 239 then
        (case s of
           b1 # b2 # _ \<Rightarrow>
             if (if x = 224 then 160 else 128) \<le> byte b1
                \<and> byte b1 \<le> (if x = 237 then 159 else 191) \<and> cont b2
             then (int (x mod 16) * 4096 + payload b1 * 64 + payload b2, 3)
             else (RuneError, 1)
         | _ \<Rightarrow> (RuneError, 1))
      else if 240 \<le> x \<and> x \<le> 244 then
        (case s of
           b1 # b2 # b3 # _ \<Rightarrow>
             if (if x = 240 then 144 else 128) \<le> byte b1
                \<and> byte b1 \<le> (if x = 244 then 143 else 191) \<and> cont b2 \<and> cont b3
             then (int (x mod 8) * 262144 + payload b1 * 4096 + payload b2 * 64 + payload b3, 4)
             else (RuneError, 1)
         | _ \<Rightarrow> (RuneError, 1))
      else (RuneError, 1))"

definition EncodeRune :: "rune \<Rightarrow> string" where
  \<comment> \<open>\<open>utf8.AppendRune\<close>: surrogates and values out of range are written as \<open>RuneError\<close>\<close>
  "EncodeRune r =
     (let enc3 = (\<lambda>v::int. [char_of (224 + v div 4096), char_of (128 + v div 64 mod 64),
                             char_of (128 + v mod 64)])
      in if 0 \<le> r \<and> r \<le> 127 then [char_of r]
         else if 0 \<le> r \<and> r \<le> 2047 then [char_of (192 + r div 64), char_of (128 + r mod 64)]
         else if r < 0 \<or> 1114111 < r \<or> (55296 \<le> r \<and> r \<le> 57343) then enc3 RuneError
         else if r \<le> 65535 then enc3 r
         else [char_of (240 + r div 262144), char_of (128 + r div 4096 mod 64),
               char_of (128 + r div 64 mod 64), char_of (128 + r mod 64)])"

function runes :: "string \<Rightarrow> rune list" where
  \<comment> \<open>the runes that \<open>for _, c := range s\<close> visits: an invalid byte is one \<open>RuneError\<close>\<close>
  "runes s = (if s = [] then []
              else fst (DecodeRuneInString s) # runes (drop (snd (DecodeRuneInString s)) s))"
  by pat_completeness auto

lemma DecodeRuneInString_width:
  "s \<noteq> [] \<Longrightarrow> 0 < snd (DecodeRuneInString s)"
  by (cases s) (auto simp: Let_def split: list.splits)

termination runes
  by (relation "measure length") (auto simp: DecodeRuneInString_width)

definition RuneStart :: "char \<Rightarrow> bool" where
  \<comment> \<open>\<open>b&0xC0 != 0x80\<close>\<close>
  "RuneStart c = (\<not> cont c)"

definition DecodeLastRuneInString :: "string \<Rightarrow> rune \<times> nat" where
  \<comment> \<open>walks back from the end to the nearest byte that can start a rune, at most
      \<open>utf8.UTFMax = 4\<close> bytes, and decodes from there\<close>
  "DecodeLastRuneInString s =
     (let end = length s in
      if end = 0 then (RuneError, 0)
      else if isASCII (last s) then (int (byte (last s)), 1)
      else
        let lim = end - 4;
            cands = filter (\<lambda>i. RuneStart (s ! i)) (rev [lim ..< end - 1]);
            start = (case cands of i # _ \<Rightarrow> i | [] \<Rightarrow> lim - 1);
            rs = DecodeRuneInString (drop start s)
        in if start + snd rs \<noteq> end then (RuneError, 1) else rs)"

subsection \<open>Package \<open>unicode\<close>\<close>

datatype Case = UpperCase | LowerCase

type_synonym caseTable = "Case \<Rightarrow> rune \<Rightarrow> rune"

text \<open>
  \<open>unicode.To(_case, r)\<close> looks the rune up in the table \<open>unicode.CaseRanges\<close>. The table
  is data of the Go distribution; it is the parameter \<open>T\<close> of everything below, and
  is only consulted for runes above \<open>unicode.MaxASCII\<close>.
\<close>

definition unicode_ToUpper :: "caseTable \<Rightarrow> rune \<Rightarrow> rune" where
  "unicode_ToUpper T r =
     (if r \<le> 127 then (if 97 \<le> r \<and> r \<le> 122 then r - 32 else r) else T UpperCase r)"

definition unicode_ToLower :: "caseTable \<Rightarrow> rune \<Rightarrow> rune" where
  "unicode_ToLower T r =
     (if r \<le> 127 then (if 65 \<le> r \<and> r \<le> 90 then r + 32 else r) else T LowerCase r)"

definition unicode_IsSpace :: "rune \<Rightarrow> bool" where
  \<comment> \<open>the Latin-1 spaces and the runes of the Unicode property \<open>White_Space\<close>\<close>
  "unicode_IsSpace r =
     (r \<in> {9, 10, 11, 12, 13, 32, 0x85, 0xA0, 0x1680, 0x2028, 0x2029, 0x202F, 0x205F, 0x3000}
      \<or> (0x2000 \<le> r \<and> r \<le> 0x200A))"

subsection \<open>Package \<open>strings\<close>\<close>

definition Map :: "(rune \<Rightarrow> rune) \<Rightarrow> string \<Rightarrow> string" where
  \<comment> \<open>every rune of \<open>s\<close> is replaced by the encoding of its image; a negative image is
      dropped\<close>
  "Map mapping s =
     concat (map (\<lambda>c. let r = mapping c in if 0 \<le> r then EncodeRune r else []) (runes s))"

definition ToUpper :: "caseTable \<Rightarrow> string \<Rightarrow> string" where
  "ToUpper T s = (if list_all isASCII s then map upperASCII s else Map (unicode_ToUpper T) s)"

definition ToLower :: "caseTable \<Rightarrow> string \<Rightarrow> string" where
  "ToLower T s = (if list_all isASCII s then map lowerASCII s else Map (unicode_ToLower T) s)"

function TrimLeftSpace :: "string \<Rightarrow> string" where
  \<comment> \<open>\<open>strings.TrimLeftFunc(s, unicode.IsSpace)\<close>\<close>
  "TrimLeftSpace s =
     (if s \<noteq> [] \<and> unicode_IsSpace (fst (DecodeRuneInString s))
      then TrimLeftSpace (drop (snd (DecodeRuneInString s)) s) else s)"
  by pat_completeness auto
termination
  by (relation "measure length") (auto simp: DecodeRuneInString_width)

function TrimRightSpace :: "string \<Rightarrow> string" where
  \<comment> \<open>\<open>strings.TrimRightFunc(s, unicode.IsSpace)\<close>\<close>
  "TrimRightSpace s =
     (if s \<noteq> [] \<and> unicode_IsSpace (fst (DecodeLastRuneInString s))
      then TrimRightSpace (take (length s - max 1 (snd (DecodeLastRuneInString s))) s) else s)"
  by pat_completeness auto
termination
  by (relation "measure length") auto

definition TrimSpace :: "string \<Rightarrow> string" where
  "TrimSpace s = TrimRightSpace (TrimLeftSpace s)"

fun Join :: "string list \<Rightarrow> string \<Rightarrow> string" where
  "Join [] sep = []"
| "Join [a] sep = a"
| "Join (a # b # elems) sep = a @ sep @ Join (b # elems) sep"

definition Contains :: "string \<Rightarrow> string \<Rightarrow> bool" where
  "Contains s substr = sublist substr s"

function replaceFrom :: "string \<Rightarrow> string \<Rightarrow> string \<Rightarrow> string" where
  \<comment> \<open>left to right, non-overlapping occurrences of a non-empty \<open>old\<close>\<close>
  "replaceFrom s old new =
     (if s = [] \<or> old = [] then s
      else if prefix old s then new @ replaceFrom (drop (length old) s) old new
      else hd s # replaceFrom (tl s) old new)"
  by pat_completeness auto
termination
  by (relation "measure (\<lambda>(s, old, new). length s)") auto

function sequences :: "string \<Rightarrow> string list" where
  \<comment> \<open>\<open>s\<close> cut into its UTF-8 sequences\<close>
  "sequences s =
     (if s = [] then []
      else take (snd (DecodeRuneInString s)) s # sequences (drop (snd (DecodeRuneInString s)) s))"
  by pat_completeness auto
termination
  by (relation "measure length") (auto simp: DecodeRuneInString_width)

definition ReplaceAll :: "string \<Rightarrow> string \<Rightarrow> string \<Rightarrow> string" where
  \<comment> \<open>an empty \<open>old\<close> matches at the beginning and after each UTF-8 sequence\<close>
  "ReplaceAll s old new =
     (if old = [] then new @ concat (map (\<lambda>u. u @ new) (sequences s))
      else replaceFrom s old new)"

section \<open>Package \<open>strconv\<close>\<close>

datatype NumError = ErrSyntax | ErrRange

definition isDigit :: "char \<Rightarrow> bool" where
  \<comment> \<open>\<open>'0' <= c && c <= '9'\<close>\<close>
  "isDigit c = (48 \<le> byte c \<and> byte c \<le> 57)"

definition digitVal :: "char \<Rightarrow> nat" where
  \<comment> \<open>\<open>c - '0'\<close>\<close>
  "digitVal c = byte c - 48"

definition digitChar :: "nat \<Rightarrow> char" where
  \<comment> \<open>\<open>byte(d) + '0'\<close>\<close>
  "digitChar d = char_of (48 + d)"

function formatBits :: "nat \<Rightarrow> string" where
  \<comment> \<open>the decimal digits of \<open>u\<close>, most significant first\<close>
  "formatBits u = (if u < 10 then [digitChar u] else formatBits (u div 10) @ [digitChar (u mod 10)])"
  by pat_completeness auto
termination
  by (relation "measure id") auto

definition FormatUint :: "64 word \<Rightarrow> string" where
  \<comment> \<open>\<open>strconv.FormatUint(i, 10)\<close>\<close>
  "FormatUint i = formatBits (unat i)"

definition FormatInt :: "64 word \<Rightarrow> string" where
  \<comment> \<open>\<open>strconv.FormatInt(i, 10)\<close>: \<open>formatBits(uint64(i), 10, i < 0)\<close>, which negates a negative
      \<open>i\<close> as an unsigned value and writes the sign in front\<close>
  "FormatInt i = (if sint i < 0 then CHR ''-'' # formatBits (unat (- i)) else formatBits (unat i))"

definition FormatBool :: "bool \<Rightarrow> string" where
  "FormatBool b = (if b then ''true'' else ''false'')"

fun parseUintLoop :: "64 word \<Rightarrow> string \<Rightarrow> NumError + 64 word" where
  \<comment> \<open>the loop of \<open>strconv.ParseUint(s, 10, 64)\<close>: \<open>cutoff = maxUint64/10 + 1\<close>, \<open>maxVal =
      1<<64 - 1\<close>; in base 10 only the digits pass the \<open>switch\<close> and the test \<open>d >= base\<close>\<close>
  "parseUintLoop n [] = Inr n"
| "parseUintLoop n (c # cs) =
     (if \<not> isDigit c then Inl ErrSyntax
      else if n \<ge> 1844674407370955162 then Inl ErrRange
      else
        let n10 = n * 10; n1 = n10 + of_nat (digitVal c)
        in if n1 < n10 \<or> n1 > 18446744073709551615 then Inl ErrRange
           else parseUintLoop n1 cs)"

definition ParseUint :: "string \<Rightarrow> NumError + 64 word" where
  \<comment> \<open>\<open>strconv.ParseUint(s, 10, 64)\<close>\<close>
  "ParseUint s = (if s = [] then Inl ErrSyntax else parseUintLoop 0 s)"

definition ParseInt :: "string \<Rightarrow> NumError + 64 word" where
  \<comment> \<open>\<open>strconv.ParseInt(s, 10, 64)\<close>: a range error of \<open>ParseUint\<close> comes with \<open>un = maxVal\<close>,
      which fails the range tests below again\<close>
  "ParseInt s0 =
     (if s0 = [] then Inl ErrSyntax
      else
        let neg = (hd s0 = CHR ''-'');
            s = (if hd s0 = CHR ''+'' \<or> hd s0 = CHR ''-'' then tl s0 else s0);
            cutoff = (9223372036854775808 :: 64 word)
        in case ParseUint s of
             Inl ErrSyntax \<Rightarrow> Inl ErrSyntax
           | Inl ErrRange \<Rightarrow> Inl ErrRange
           | Inr un \<Rightarrow>
               if \<not> neg \<and> un \<ge> cutoff then Inl ErrRange
               else if neg \<and> un > cutoff then Inl ErrRange
               else Inr (if neg then - un else un))"

text \<open>
  \<open>strconv.ParseFloat(s, 64)\<close> accepts decimal and hexadecimal floating-point numbers,
  infinities and NaN. All of them are written with digits, signs, the point, the
  underscore and ASCII letters only, and none is empty. The value of an accepted text, and
  whether it is in range, is floating-point arithmetic: it is the parameter \<open>atof\<close>, over a
  type \<open>'f\<close> that stands for \<open>float64\<close>. \<open>strconv.FormatFloat(f, 'f', -1, 64)\<close> is the
  parameter \<open>ftoa\<close> of \<open>BindFloat\<close>.
\<close>

definition floatChar :: "char \<Rightarrow> bool" where
  "floatChar c =
     (isDigit c \<or> c \<in> {CHR ''+'', CHR ''-'', CHR ''.'', CHR ''_''}
      \<or> (65 \<le> byte c \<and> byte c \<le> 90) \<or> (97 \<le> byte c \<and> byte c \<le> 122))"

definition ParseFloat :: "(string \<Rightarrow> 'f option) \<Rightarrow> string \<Rightarrow> 'f option" where
  "ParseFloat atof s = (if s \<noteq> [] \<and> list_all floatChar s then atof s else None)"

section \<open>Package \<open>net\<close>\<close>

type_synonym IP = "8 word list"
type_synonym IPMask = "8 word list"

record IPNet =
  IP :: IP
  Mask :: IPMask

definition uitoa :: "nat \<Rightarrow> string" where
  "uitoa n = formatBits n"

definition hexDigit :: "nat \<Rightarrow> char" where
  \<comment> \<open>\<open>"0123456789abcdef"[d]\<close>\<close>
  "hexDigit d = (if d < 10 then char_of (48 + d) else char_of (87 + d))"

definition hexString :: "8 word list \<Rightarrow> string" where
  "hexString b = concat (map (\<lambda>tn. [hexDigit (unat tn div 16), hexDigit (unat tn mod 16)]) b)"

definition v4InV6Prefix :: "8 word list" where
  "v4InV6Prefix = [0, 0, 0, 0, 0, 0, 0, 0, 0, 0, 0xff, 0xff]"

definition To4 :: "IP \<Rightarrow> IP" where
  \<comment> \<open>the result \<open>nil\<close> is the empty list\<close>
  "To4 ip =
     (if length ip = 4 then ip
      else if length ip = 16 \<and> take 12 ip = v4InV6Prefix then drop 12 ip
      else [])"

fun parseIPv4Fields :: "string \<Rightarrow> char option \<Rightarrow> nat \<Rightarrow> nat \<Rightarrow> 8 word list \<Rightarrow> 8 word list option"
  where
  \<comment> \<open>the loop of \<open>netip.parseIPv4Fields\<close>; the arguments are the rest of the text, the
      character before it, \<open>val\<close>, \<open>digLen\<close> and the fields stored so far (\<open>pos\<close> is their
      number)\<close>
  "parseIPv4Fields [] prev val digLen fs =
     (if length fs < 3 then None else Some (fs @ [of_nat val]))"
| "parseIPv4Fields (c # cs) prev val digLen fs =
     (if isDigit c then
        (if digLen = 1 \<and> val = 0 then None
         else if val * 10 + digitVal c > 255 then None
         else parseIPv4Fields cs (Some c) (val * 10 + digitVal c) (digLen + 1) fs)
      else if c = CHR ''.'' then
        (if prev = None \<or> cs = [] \<or> prev = Some (CHR ''.'') then None
         else if length fs = 3 then None
         else parseIPv4Fields cs (Some c) 0 0 (fs @ [of_nat val]))
      else None)"

definition parseIPv4 :: "string \<Rightarrow> 8 word list option" where
  "parseIPv4 str = parseIPv4Fields str None 0 0 []"

definition As16 :: "128 word \<Rightarrow> IP" where
  \<comment> \<open>the sixteen bytes of an address, most significant first\<close>
  "As16 a = map (\<lambda>i. ucast (drop_bit (8 * (15 - i)) a)) [0 ..< 16]"

definition AddrFrom16 :: "IP \<Rightarrow> 128 word" where
  "AddrFrom16 ip = foldl (\<lambda>a b. push_bit 8 a + ucast b) 0 ip"

text \<open>
  \<open>netip.ParseAddr\<close> looks for the first of the characters \<open>.\<close>, \<open>:\<close> and \<open>%\<close>: a text
  with a point first is an IPv4 address, one with a colon first an IPv6 address. The IPv4
  grammar is written out above. The IPv6 grammar and the IPv6 text form are parameters:
  \<open>parse6\<close> gives the 128-bit address of an IPv6 text without a zone (\<open>net.ParseIP\<close> and
  \<open>net.ParseCIDR\<close> refuse a zone), and \<open>string6\<close> the text of an address that is not an
  IPv4-mapped one.
\<close>

definition ParseAddr :: "(string \<Rightarrow> 128 word option) \<Rightarrow> string \<Rightarrow> (IP \<times> nat) option" where
  \<comment> \<open>the address as \<open>As16\<close> gives it, and its \<open>BitLen\<close>\<close>
  "ParseAddr parse6 str =
     (case List.find (\<lambda>c. c = CHR ''.'' \<or> c = CHR '':'' \<or> c = CHR ''%'') str of
        None \<Rightarrow> None
      | Some c \<Rightarrow>
          if c = CHR ''.'' then
            (case parseIPv4 str of None \<Rightarrow> None | Some f \<Rightarrow> Some (v4InV6Prefix @ f, 32))
          else if c = CHR '':'' then
            (case parse6 str of None \<Rightarrow> None | Some a \<Rightarrow> Some (As16 a, 128))
          else None)"

definition ParseIP :: "(string \<Rightarrow> 128 word option) \<Rightarrow> string \<Rightarrow> IP" where
  \<comment> \<open>\<open>nil\<close> is the empty list\<close>
  "ParseIP parse6 str = (case ParseAddr parse6 str of None \<Rightarrow> [] | Some (ip, bits) \<Rightarrow> ip)"

definition string4 :: "IP \<Rightarrow> string" where
  \<comment> \<open>dotted decimal, for four bytes\<close>
  "string4 p4 = Join (map (\<lambda>b. uitoa (unat b)) p4) ''.''"

definition IP_String :: "(128 word \<Rightarrow> string) \<Rightarrow> IP \<Rightarrow> string" where
  "IP_String string6 ip =
     (if length ip = 0 then ''<nil>''
      else if length ip \<noteq> 4 \<and> length ip \<noteq> 16 then ''?'' @ hexString ip
      else if length (To4 ip) = 4 then string4 (To4 ip)
      else string6 (AddrFrom16 ip))"

fun dtoiLoop :: "nat \<Rightarrow> nat \<Rightarrow> string \<Rightarrow> nat \<times> nat \<times> bool" where
  \<comment> \<open>\<open>net.dtoi\<close>: number, characters consumed, success; \<open>big = 0xFFFFFF\<close>\<close>
  "dtoiLoop n i [] = (if i = 0 then (0, 0, False) else (n, i, True))"
| "dtoiLoop n i (c # cs) =
     (if isDigit c then
        (if n * 10 + digitVal c \<ge> 0xFFFFFF then (0xFFFFFF, i, False)
         else dtoiLoop (n * 10 + digitVal c) (i + 1) cs)
      else if i = 0 then (0, 0, False) else (n, i, True))"

definition dtoi :: "string \<Rightarrow> nat \<times> nat \<times> bool" where
  "dtoi str = dtoiLoop 0 0 str"

definition CIDRMask :: "nat \<Rightarrow> nat \<Rightarrow> IPMask" where
  \<comment> \<open>for \<open>ones \<le> bits\<close> and \<open>bits\<close> 32 or 128: byte \<open>i\<close> has its \<open>min 8 (ones - 8 i)\<close>
      leading bits set\<close>
  "CIDRMask ones bits =
     map (\<lambda>i. if ones \<ge> 8 * i + 8 then 0xff else NOT (drop_bit (ones - 8 * i) (0xff :: 8 word)))
       [0 ..< bits div 8]"

definition IP_Mask :: "IP \<Rightarrow> IPMask \<Rightarrow> IP" where
  "IP_Mask ip0 mask0 =
     (let msk = (if length mask0 = 16 \<and> length ip0 = 4 \<and> take 12 mask0 = replicate 12 0xff
                  then drop 12 mask0 else mask0);
          ip = (if length msk = 4 \<and> length ip0 = 16 \<and> take 12 ip0 = v4InV6Prefix
                then drop 12 ip0 else ip0)
      in if length ip \<noteq> length msk then [] else map (\<lambda>(a, m). a AND m) (zip ip msk))"

definition Cut :: "string \<Rightarrow> char \<Rightarrow> (string \<times> string) option" where
  \<comment> \<open>\<open>strings.Cut(s, sep)\<close> for a separator of one byte; \<open>None\<close> when it is not found\<close>
  "Cut str sep =
     (if sep \<in> set str
      then Some (takeWhile (\<lambda>c. c \<noteq> sep) str, tl (dropWhile (\<lambda>c. c \<noteq> sep) str))
      else None)"

definition ParseCIDR :: "(string \<Rightarrow> 128 word option) \<Rightarrow> string \<Rightarrow> (IP \<times> IPNet) option" where
  "ParseCIDR parse6 str =
     (case Cut str (CHR ''/'') of
        None \<Rightarrow> None
      | Some (addr, msk) \<Rightarrow>
          (case ParseAddr parse6 addr of
             None \<Rightarrow> None
           | Some (addr16, bitLen) \<Rightarrow>
               (case dtoi msk of (n, i, ok) \<Rightarrow>
                  if \<not> ok \<or> i \<noteq> length msk \<or> n > bitLen then None
                  else
                    let m = CIDRMask n bitLen
                    in Some (addr16, \<lparr>IP = IP_Mask addr16 m, Mask = m\<rparr>))))"

definition networkNumberAndMask :: "IPNet \<Rightarrow> IP \<times> IPMask" where
  \<comment> \<open>\<open>nil\<close> is the empty list\<close>
  "networkNumberAndMask n =
     (let ip = (if To4 (IP n) = [] then IP n else To4 (IP n));
          m = Mask n
      in if To4 (IP n) = [] \<and> length ip \<noteq> 16 then ([], [])
         else if length m = 4 then (if length ip \<noteq> 4 then ([], []) else (ip, m))
         else if length m = 16 then (if length ip = 4 then (ip, drop 12 m) else (ip, m))
         else ([], []))"

fun leadingOnes :: "nat \<Rightarrow> 8 word \<Rightarrow> nat \<times> 8 word" where
  \<comment> \<open>\<open>for v&0x80 != 0 { n++; v <<= 1 }\<close>; the first argument bounds the eight turns\<close>
  "leadingOnes 0 v = (0, v)"
| "leadingOnes (Suc k) v =
     (if v AND 0x80 \<noteq> 0 then (case leadingOnes k (push_bit 1 v) of (n, v') \<Rightarrow> (n + 1, v'))
      else (0, v))"

fun simpleMaskLength :: "IPMask \<Rightarrow> int" where
  "simpleMaskLength [] = 0"
| "simpleMaskLength (v # msk) =
     (if v = 0xff then
        (let l = simpleMaskLength msk in if l = - 1 then - 1 else 8 + l)
      else case leadingOnes 8 v of (n, v') \<Rightarrow>
        if v' \<noteq> 0 then - 1
        else if list_ex (\<lambda>b. b \<noteq> 0) msk then - 1
        else int n)"

definition IPMask_String :: "IPMask \<Rightarrow> string" where
  "IPMask_String m = (if length m = 0 then ''<nil>'' else hexString m)"

definition IPNet_String :: "(128 word \<Rightarrow> string) \<Rightarrow> IPNet \<Rightarrow> string" where
  "IPNet_String string6 n =
     (case networkNumberAndMask n of (nn, m) \<Rightarrow>
        if nn = [] \<or> m = [] then ''<nil>''
        else
          let l = simpleMaskLength m
          in if l = - 1 then IP_String string6 nn @ ''/'' @ IPMask_String m
             else IP_String string6 nn @ ''/'' @ uitoa (nat l))"

section \<open>Package \<open>time\<close>\<close>

subsection \<open>\<open>Time.String\<close>\<close>

text \<open>
  \<open>Time.String\<close> prints what the methods \<open>Date\<close>, \<open>Clock\<close>, \<open>Nanosecond\<close> and \<open>Zone\<close> of a
  \<open>time.Time\<close> return, and its monotonic clock reading when it has one. A \<open>Time\<close> is
  modelled by these values.
\<close>

record Time =
  Year :: int
  Month :: nat
  Day :: nat
  Hour :: nat
  Minute :: nat
  Second :: nat
  Nanosecond :: nat
  ZoneName :: string
  ZoneOffset :: int  \<comment> \<open>seconds east of UTC\<close>
  Monotonic :: "int option"  \<comment> \<open>the reading in nanoseconds, when \<open>hasMonotonic\<close> is set\<close>

definition appendInt :: "int \<Rightarrow> nat \<Rightarrow> string" where
  \<comment> \<open>\<open>time.appendInt\<close>: the sign, then the decimal digits padded with zeros to \<open>width\<close>\<close>
  "appendInt x width =
     (let d = formatBits (nat \<bar>x\<bar>)
      in (if x < 0 then ''-'' else []) @ replicate (width - length d) (CHR ''0'') @ d)"

definition quot :: "int \<Rightarrow> int \<Rightarrow> int" where
  \<comment> \<open>Go's \<open>/\<close> on integers, which truncates towards zero\<close>
  "quot a b = sgn a * sgn b * (\<bar>a\<bar> div \<bar>b\<bar>)"

definition rem :: "int \<Rightarrow> int \<Rightarrow> int" where
  \<comment> \<open>Go's \<open>%\<close> on integers\<close>
  "rem a b = a - b * quot a b"

fun trimZeros :: "string \<Rightarrow> string" where
  \<comment> \<open>the characters \<open>0\<close> at the end are dropped; the argument is reversed\<close>
  "trimZeros [] = []"
| "trimZeros (c # cs) = (if c = CHR ''0'' then trimZeros cs else c # cs)"

definition appendNano :: "nat \<Rightarrow> string" where
  \<comment> \<open>\<open>time.appendNano\<close> for the layout element \<open>.999999999\<close>: nothing for zero, otherwise
      the point and nine digits without the zeros at the end\<close>
  "appendNano nanosec =
     (if nanosec = 0 then []
      else rev (trimZeros (rev (''.'' @ appendInt (int nanosec) 9))))"

definition appendZone :: "int \<Rightarrow> string" where
  \<comment> \<open>the layout element \<open>-0700\<close>\<close>
  "appendZone offset =
     (let zone = quot offset 60
      in (if zone < 0 then ''-'' else ''+'')
         @ appendInt (quot \<bar>zone\<bar> 60) 2 @ appendInt (rem \<bar>zone\<bar> 60) 2)"

definition Time_Format :: "Time \<Rightarrow> string" where
  \<comment> \<open>\<open>t.Format("2006-01-02 15:04:05.999999999 -0700 MST")\<close>; a zone without a name is
      printed in the form \<open>-0700\<close> once more\<close>
  "Time_Format t =
     appendInt (Year t) 4 @ ''-'' @ appendInt (int (Month t)) 2 @ ''-''
     @ appendInt (int (Day t)) 2 @ '' '' @ appendInt (int (Hour t)) 2 @ '':''
     @ appendInt (int (Minute t)) 2 @ '':'' @ appendInt (int (Second t)) 2
     @ appendNano (Nanosecond t) @ '' '' @ appendZone (ZoneOffset t) @ '' ''
     @ (if ZoneName t \<noteq> [] then ZoneName t else appendZone (ZoneOffset t))"

definition Time_String :: "Time \<Rightarrow> string" where
  \<comment> \<open>the monotonic reading is added as \<open>m=\<plusminus>seconds.nanoseconds\<close>\<close>
  "Time_String t =
     Time_Format t @
     (case Monotonic t of
        None \<Rightarrow> []
      | Some ext \<Rightarrow>
          let m2 = nat \<bar>ext\<bar>;
              m1 = m2 div 1000000000;
              m0 = m1 div 1000000000
          in '' m='' @ (if ext < 0 then ''-'' else ''+'')
             @ (if m0 \<noteq> 0 then appendInt (int m0) 0 else [])
             @ appendInt (int (m1 mod 1000000000)) (if m0 \<noteq> 0 then 9 else 0)
             @ ''.'' @ appendInt (int (m2 mod 1000000000)) 9)"

subsection \<open>\<open>time.Parse\<close> with the layout \<open>RFC3339Nano\<close>\<close>

text \<open>
  \<open>time.Parse\<close> reads the value element by element of the layout
  \<open>2006-01-02T15:04:05.999999999Z07:00\<close>. The first elements are written out: four digits
  of the year, a minus sign, two digits of the month, a minus sign, two digits of the day
  and the letter \<open>T\<close>; a value that does not begin so is an error. What \<open>Parse\<close>
  returns for a value that does begin so (the range checks of the date, the time of day,
  the fraction, the zone, the \<open>Location\<close> of the result) is the parameter \<open>parseRest\<close>.
\<close>

definition datePrefix :: "string \<Rightarrow> bool" where
  "datePrefix v =
     (length v \<ge> 11
      \<and> isDigit (v ! 0) \<and> isDigit (v ! 1) \<and> isDigit (v ! 2) \<and> isDigit (v ! 3)
      \<and> v ! 4 = CHR ''-'' \<and> isDigit (v ! 5) \<and> isDigit (v ! 6)
      \<and> v ! 7 = CHR ''-'' \<and> isDigit (v ! 8) \<and> isDigit (v ! 9)
      \<and> v ! 10 = CHR ''T'')"

definition time_Parse :: "(string \<Rightarrow> Time option) \<Rightarrow> string \<Rightarrow> Time option" where
  \<comment> \<open>\<open>time.Parse(time.RFC3339Nano, v)\<close>\<close>
  "time_Parse parseRest v = (if datePrefix v then parseRest v else None)"

subsection \<open>\<open>Duration\<close>\<close>

text \<open>
  A \<open>Duration\<close> is an \<open>int64\<close> of nanoseconds. The unsigned intermediate values of
  \<open>Duration.String\<close> and \<open>time.ParseDuration\<close> are natural numbers here. The digits are
  read under checks against \<open>1<<63\<close>, which is 9223372036854775808, that keep every
  product in the range of \<open>uint64\<close>; the two additions of \<open>ParseDuration\<close> whose result
  is only checked afterwards are taken modulo \<open>2^64\<close>, which is 18446744073709551616.
\<close>

type_synonym Duration = "64 word"

fun fmtFrac :: "nat \<Rightarrow> nat \<Rightarrow> bool \<Rightarrow> string \<times> nat" where
  \<comment> \<open>\<open>prec\<close> turns of the loop of \<open>time.fmtFrac\<close>, then the point; returns the text and
      \<open>v / 10^prec\<close>\<close>
  "fmtFrac v 0 print = (if print then ''.'' else [], v)"
| "fmtFrac v (Suc prec) print =
     (let digit = v mod 10;
          print' = (print \<or> digit \<noteq> 0)
      in case fmtFrac (v div 10) prec print' of
           (w, nv) \<Rightarrow> (w @ (if print' then [digitChar digit] else []), nv))"

definition fmtInt :: "nat \<Rightarrow> string" where
  "fmtInt v = formatBits v"

definition Duration_String :: "Duration \<Rightarrow> string" where
  "Duration_String d =
     (let neg = (sint d < 0);
          u = unat (if neg then - d else d);
          body =
            (if u < 1000000000 then
               (if u = 0 then ''0s''
                else if u < 1000 then fmtInt u @ ''ns''
                else if u < 1000000 then
                  (case fmtFrac u 3 False of (w, nv) \<Rightarrow> fmtInt nv @ w @ [CHR 0xC2, CHR 0xB5] @ ''s'')
                else
                  (case fmtFrac u 6 False of (w, nv) \<Rightarrow> fmtInt nv @ w @ ''ms''))
             else
               (case fmtFrac u 9 False of (w, nv) \<Rightarrow>
                  let secs = fmtInt (nv mod 60) @ w @ ''s'';
                      mins = nv div 60
                  in if mins > 0 then
                       (let hours = mins div 60
                        in (if hours > 0 then fmtInt hours @ ''h'' else [])
                           @ fmtInt (mins mod 60) @ ''m'' @ secs)
                     else secs))
      in (if neg then ''-'' else []) @ body)"

fun leadingInt :: "nat \<Rightarrow> string \<Rightarrow> (nat \<times> string) option" where
  \<comment> \<open>\<open>time.leadingInt\<close>, from the value \<open>x\<close> read so far; \<open>None\<close> is \<open>errLeadingInt\<close>\<close>
  "leadingInt x [] = Some (x, [])"
| "leadingInt x (c # cs) =
     (if \<not> isDigit c then Some (x, c # cs)
      else if x > 9223372036854775808 div 10 then None
      else if x * 10 + digitVal c > 9223372036854775808 then None
      else leadingInt (x * 10 + digitVal c) cs)"

fun leadingFraction :: "nat \<Rightarrow> nat \<Rightarrow> bool \<Rightarrow> string \<Rightarrow> nat \<times> nat \<times> string" where
  \<comment> \<open>\<open>time.leadingFraction\<close>, from the state \<open>x\<close>, \<open>scale\<close>, \<open>overflow\<close>; the scale is a power
      of ten that a \<open>float64\<close> holds exactly\<close>
  "leadingFraction x scale overflow [] = (x, scale, [])"
| "leadingFraction x scale overflow (c # cs) =
     (if \<not> isDigit c then (x, scale, c # cs)
      else if overflow then leadingFraction x scale overflow cs
      else if x > (9223372036854775808 - 1) div 10 then leadingFraction x scale True cs
      else if x * 10 + digitVal c > 9223372036854775808 then leadingFraction x scale True cs
      else leadingFraction (x * 10 + digitVal c) (scale * 10) False cs)"

definition unitMap :: "string \<rightharpoonup> nat" where
  "unitMap u =
     (if u = ''ns'' then Some 1
      else if u = ''us'' \<or> u = [CHR 0xC2, CHR 0xB5, CHR ''s''] \<or> u = [CHR 0xCE, CHR 0xBC, CHR ''s'']
        then Some 1000
      else if u = ''ms'' then Some 1000000
      else if u = ''s'' then Some 1000000000
      else if u = ''m'' then Some 60000000000
      else if u = ''h'' then Some 3600000000000
      else None)"

definition unitEnd :: "char \<Rightarrow> bool" where
  \<comment> \<open>\<open>c == '.' || '0' <= c && c <= '9'\<close>\<close>
  "unitEnd c = (c = CHR ''.'' \<or> isDigit c)"

text \<open>
  One turn of the loop of \<open>ParseDuration\<close> reads a number, an optional fraction and a
  unit. The fraction is added as \<open>uint64(float64(f) * (float64(unit) / scale))\<close>; this
  floating-point expression is the parameter \<open>fracNanos f unit scale\<close>.
\<close>

definition parseTerm :: "(nat \<Rightarrow> nat \<Rightarrow> nat \<Rightarrow> nat) \<Rightarrow> string \<Rightarrow> (nat \<times> string) option" where
  \<comment> \<open>the nanoseconds of the first term of a non-empty \<open>str\<close>, and the rest of \<open>str\<close>\<close>
  "parseTerm fracNanos str =
     (if \<not> (hd str = CHR ''.'' \<or> isDigit (hd str)) then None
      else case leadingInt 0 str of
        None \<Rightarrow> None
      | Some (v, s1) \<Rightarrow>
          let pre = (length str \<noteq> length s1);
              (f, scale, s2) = (if s1 \<noteq> [] \<and> hd s1 = CHR ''.''
                                then leadingFraction 0 1 False (tl s1) else (0, 1, s1));
              post = (s1 \<noteq> [] \<and> hd s1 = CHR ''.'' \<and> length (tl s1) \<noteq> length s2)
          in if \<not> pre \<and> \<not> post then None
             else
               let u = takeWhile (\<lambda>c. \<not> unitEnd c) s2;
                   s3 = dropWhile (\<lambda>c. \<not> unitEnd c) s2
               in if u = [] then None
                  else case unitMap u of
                    None \<Rightarrow> None
                  | Some unit \<Rightarrow>
                      if v > 9223372036854775808 div unit then None
                      else
                        let v1 = v * unit;
                            v2 = (if f > 0
                                  then (v1 + fracNanos f unit scale) mod 18446744073709551616
                                  else v1)
                        in if f > 0 \<and> v2 > 9223372036854775808 then None else Some (v2, s3))"

fun parseTerms :: "(nat \<Rightarrow> nat \<Rightarrow> nat \<Rightarrow> nat) \<Rightarrow> nat \<Rightarrow> nat \<Rightarrow> string \<Rightarrow> nat option" where
  \<comment> \<open>the loop \<open>for s != ""\<close> of \<open>ParseDuration\<close>, from the sum \<open>d\<close>; every turn consumes at
      least the unit, so \<open>length s\<close> turns are enough, which is what the first argument
      counts. The sum \<open>d += v\<close> is one of \<open>uint64\<close>: it wraps at \<open>2^64\<close> before it is
      compared with \<open>1<<63\<close>\<close>
  "parseTerms fracNanos d 0 str = (if str = [] then Some d else None)"
| "parseTerms fracNanos d (Suc k) str =
     (if str = [] then Some d
      else case parseTerm fracNanos str of
        None \<Rightarrow> None
      | Some (v, rest) \<Rightarrow>
          let d' = (d + v) mod 18446744073709551616
          in if d' > 9223372036854775808 then None else parseTerms fracNanos d' k rest)"

definition ParseDuration :: "(nat \<Rightarrow> nat \<Rightarrow> nat \<Rightarrow> nat) \<Rightarrow> string \<Rightarrow> Duration option" where
  "ParseDuration fracNanos orig =
     (let neg = (orig \<noteq> [] \<and> hd orig = CHR ''-'');
          str = (if orig \<noteq> [] \<and> (hd orig = CHR ''-'' \<or> hd orig = CHR ''+'') then tl orig else orig)
      in if str = ''0'' then Some 0
         else if str = [] then None
         else case parseTerms fracNanos 0 (length str) str of
           None \<Rightarrow> None
         | Some d \<Rightarrow>
             if neg then Some (- of_nat d)
             else if d > 9223372036854775808 - 1 then None
             else Some (of_nat d))"

section \<open>Package \<open>envutil\<close>: file \<open>env.go\<close>\<close>

record Env =
  Name :: string
  Value :: string

text \<open>
  \<open>strconv.Quote\<close> needs the Unicode tables of printable runes; it is the parameter
  \<open>Quote\<close> of \<open>Env.String\<close>.
\<close>

definition Env_String :: "(string \<Rightarrow> string) \<Rightarrow> Env \<Rightarrow> string" where
  "Env_String Quote e =
     (if Contains (Value e) [CHR 0x22] then Name e @ ''='' @ Quote (Value e)
      else Name e @ ''='' @ Value e)"

section \<open>Package \<open>envutil\<close>: file \<open>namespace.go\<close>\<close>

record Namespace =
  ns_s :: string  \<comment> \<open>the field \<open>s\<close>\<close>

type_synonym environ = "string \<rightharpoonup> string"

definition LookupEnv :: "environ \<Rightarrow> string \<Rightarrow> string \<times> bool" where
  \<comment> \<open>\<open>os.LookupEnv\<close>: the value and whether the variable is present\<close>
  "LookupEnv env key = (case env key of Some val \<Rightarrow> (val, True) | None \<Rightarrow> ([], False))"

definition new :: "caseTable \<Rightarrow> Namespace \<Rightarrow> string \<Rightarrow> Env" where
  "new T n name =
     (let ss = [ns_s n, ReplaceAll name '' '' ''_'']
      in \<lparr>Name = ToUpper T (Join ss ''_''), Value = []\<rparr>)"

definition NewNamespace :: "caseTable \<Rightarrow> string \<Rightarrow> Namespace" where
  "NewNamespace T str = \<lparr>ns_s = ToUpper T (ReplaceAll str '' '' ''_'')\<rparr>"

text \<open>
  Every \<open>Bind\<close> function takes the environment, the namespace, the label, the value the
  destination \<open>*ptr\<close> holds before the call and the variadic defaults \<open>def\<close> as a list; it
  returns the \<open>Env\<close> and the value of \<open>*ptr\<close> after the call. The \<open>goto BIND\<close> skips
  only the assignment of the formatted default.
\<close>

definition lookup :: "environ \<Rightarrow> Env \<Rightarrow> 'a list \<Rightarrow> ('a \<Rightarrow> string) \<Rightarrow> Env" where
  \<comment> \<open>the lines of every \<open>Bind\<close> function from \<open>os.LookupEnv\<close> down to the label \<open>BIND\<close>\<close>
  "lookup env e def format =
     (let (val, ok) = LookupEnv env (Name e)
      in if ok then e\<lparr>Value := val\<rparr>
         else if length def > 0 then e\<lparr>Value := format (def ! 0)\<rparr>
         else e)"

definition BindString :: "caseTable \<Rightarrow> environ \<Rightarrow> Namespace \<Rightarrow> string \<Rightarrow> string \<Rightarrow> string list
    \<Rightarrow> Env \<times> string" where
  "BindString T env n name ptr def =
     (let e = lookup env (new T n name) def (\<lambda>d. d)
      in (e, Value e))"

definition BindInt :: "caseTable \<Rightarrow> environ \<Rightarrow> Namespace \<Rightarrow> string \<Rightarrow> 64 word \<Rightarrow> 64 word list
    \<Rightarrow> Env \<times> 64 word" where
  "BindInt T env n name ptr def =
     (let e = lookup env (new T n name) def FormatInt
      in case ParseInt (Value e) of
           Inl err \<Rightarrow> (e, if length def > 0 then def ! 0 else ptr)
         | Inr i \<Rightarrow> (e, i))"

definition BindUint :: "caseTable \<Rightarrow> environ \<Rightarrow> Namespace \<Rightarrow> string \<Rightarrow> 64 word \<Rightarrow> 64 word list
    \<Rightarrow> Env \<times> 64 word" where
  "BindUint T env n name ptr def =
     (let e = lookup env (new T n name) def FormatUint
      in case ParseUint (Value e) of
           Inl err \<Rightarrow> (e, if length def > 0 then def ! 0 else ptr)
         | Inr i \<Rightarrow> (e, i))"

definition switchBool :: "caseTable \<Rightarrow> string \<Rightarrow> bool option" where
  \<comment> \<open>the \<open>switch\<close> of \<open>BindBool\<close>: the value of the first two cases, \<open>None\<close> for
      \<open>default\<close>\<close>
  "switchBool T val =
     (let v = ToLower T (TrimSpace val)
      in if v = ''1'' \<or> v = ''true'' then Some True
         else if v = ''0'' \<or> v = ''false'' then Some False
         else None)"

definition BindBool :: "caseTable \<Rightarrow> environ \<Rightarrow> Namespace \<Rightarrow> string \<Rightarrow> bool \<Rightarrow> bool list
    \<Rightarrow> Env \<times> bool" where
  "BindBool T env n name ptr def =
     (let e = lookup env (new T n name) def FormatBool
      in case switchBool T (Value e) of
           Some b \<Rightarrow> (e, b)
         | None \<Rightarrow> (e, if length def > 0 then def ! 0 else ptr))"

definition BindFloat :: "caseTable \<Rightarrow> (string \<Rightarrow> 'f option) \<Rightarrow> ('f \<Rightarrow> string) \<Rightarrow> environ
    \<Rightarrow> Namespace \<Rightarrow> string \<Rightarrow> 'f \<Rightarrow> 'f list \<Rightarrow> Env \<times> 'f" where
  "BindFloat T atof ftoa env n name ptr def =
     (let e = lookup env (new T n name) def ftoa
      in case ParseFloat atof (Value e) of
           None \<Rightarrow> (e, if length def > 0 then def ! 0 else ptr)
         | Some i \<Rightarrow> (e, i))"

definition BindIP :: "caseTable \<Rightarrow> (string \<Rightarrow> 128 word option) \<Rightarrow> (128 word \<Rightarrow> string) \<Rightarrow> environ
    \<Rightarrow> Namespace \<Rightarrow> string \<Rightarrow> IP \<Rightarrow> IP list \<Rightarrow> Env \<times> IP" where
  "BindIP T parse6 string6 env n name ptr def =
     (let e = lookup env (new T n name) def (IP_String string6);
          v = ParseIP parse6 (TrimSpace (Value e))
      in if v = [] then (e, if length def > 0 then def ! 0 else ptr)
         else (e, v))"

definition BindIPNet :: "caseTable \<Rightarrow> (string \<Rightarrow> 128 word option) \<Rightarrow> (128 word \<Rightarrow> string) \<Rightarrow> environ
    \<Rightarrow> Namespace \<Rightarrow> string \<Rightarrow> IPNet \<Rightarrow> IPNet list \<Rightarrow> Env \<times> IPNet" where
  "BindIPNet T parse6 string6 env n name ptr def =
     (let e = lookup env (new T n name) def (IPNet_String string6)
      in case ParseCIDR parse6 (TrimSpace (Value e)) of
           None \<Rightarrow> (e, if length def > 0 then def ! 0 else ptr)
         | Some (ip, v) \<Rightarrow> (e, v))"

definition BindTime :: "caseTable \<Rightarrow> (string \<Rightarrow> Time option) \<Rightarrow> environ
    \<Rightarrow> Namespace \<Rightarrow> string \<Rightarrow> Time \<Rightarrow> Time list \<Rightarrow> Env \<times> Time" where
  "BindTime T parseRest env n name ptr def =
     (let e = lookup env (new T n name) def Time_String
      in case time_Parse parseRest (TrimSpace (Value e)) of
           None \<Rightarrow> (e, if length def > 0 then def ! 0 else ptr)
         | Some v \<Rightarrow> (e, v))"

definition BindDuration :: "caseTable \<Rightarrow> (nat \<Rightarrow> nat \<Rightarrow> nat \<Rightarrow> nat) \<Rightarrow> environ
    \<Rightarrow> Namespace \<Rightarrow> string \<Rightarrow> Duration \<Rightarrow> Duration list \<Rightarrow> Env \<times> Duration" where
  "BindDuration T fracNanos env n name ptr def =
     (let e = lookup env (new T n name) def Duration_String
      in case ParseDuration fracNanos (TrimSpace (Value e)) of
           None \<Rightarrow> (e, if length def > 0 then def ! 0 else ptr)
         | Some v \<Rightarrow> (e, v))"

definition BindFunc :: "caseTable \<Rightarrow> environ \<Rightarrow> Namespace \<Rightarrow> string \<Rightarrow> (string \<Rightarrow> bool \<Rightarrow> string)
    \<Rightarrow> Env" where
  "BindFunc T env n name fn =
     (let e = new T n name;
          (val, ok) = LookupEnv env (Name e)
      in e\<lparr>Value := fn val ok\<rparr>)"

definition noCase :: caseTable where
  \<comment> \<open>a case table without entries; the examples below use ASCII names only\<close>
  "noCase c r = r"

section \<open>The steps of a \<open>Bind\<close> function\<close>

lemma Contains_single: "Contains v [c] \<longleftrightarrow> c \<in> set v"
  by (induction v) (auto simp: Contains_def sublist_Cons_right)

lemma new_Value: "Value (new T n name) = []"
  by (simp add: new_def)

lemma lookup_present:
  "env (Name e) = Some v \<Longrightarrow> lookup env e def format = e\<lparr>Value := v\<rparr>"
  by (simp add: lookup_def LookupEnv_def)

lemma lookup_absent:
  "env (Name e) = None \<Longrightarrow>
   lookup env e def format = (if def = [] then e else e\<lparr>Value := format (def ! 0)\<rparr>)"
  by (simp add: lookup_def LookupEnv_def)


lemma TrimSpace_Nil: "TrimSpace [] = []"
  by (simp add: TrimSpace_def)

lemma ParseInt_Nil: "ParseInt [] = Inl ErrSyntax"
  by (simp add: ParseInt_def)

lemma ParseUint_Nil: "ParseUint [] = Inl ErrSyntax"
  by (simp add: ParseUint_def)

lemma ParseFloat_Nil: "ParseFloat atof [] = None"
  by (simp add: ParseFloat_def)

lemma switchBool_Nil: "switchBool T [] = None"
  by (simp add: switchBool_def TrimSpace_Nil ToLower_def)

lemma ParseIP_Nil: "ParseIP parse6 [] = []"
  by (simp add: ParseIP_def ParseAddr_def)

lemma ParseCIDR_Nil: "ParseCIDR parse6 [] = None"
  by (simp add: ParseCIDR_def Cut_def)

lemma time_Parse_Nil: "time_Parse parseRest [] = None"
  by (simp add: time_Parse_def datePrefix_def)

lemma ParseDuration_Nil: "ParseDuration fracNanos [] = None"
  by (simp add: ParseDuration_def)

section \<open>Examples\<close>

definition gopherTime :: Time where
  "gopherTime = \<lparr>Year = 2009, Month = 11, Day = 10, Hour = 23, Minute = 0, Second = 0,
     Nanosecond = 0, ZoneName = ''UTC'', ZoneOffset = 0, Monotonic = None\<rparr>"

definition exactNanos :: "nat \<Rightarrow> nat \<Rightarrow> nat \<Rightarrow> nat" where
  \<comment> \<open>an instance of the parameter \<open>fracNanos\<close> for the examples: the fraction of
      \<open>ParseDuration\<close> in exact arithmetic. Floating point gives the same value where the
      quotient and the product are exact, as for \<open>1.5s\<close>; the examples use no other
      fraction\<close>
  "exactNanos f unit scale = f * unit div scale"

lemma new_example:
  "new noCase (NewNamespace noCase ''app'') ''max retries''
     = \<lparr>Name = ''APP_MAX_RETRIES'', Value = []\<rparr>"
  by code_simp

section \<open>The rendering of an \<open>Env\<close>\<close>

text \<open>
  C8. \<open>Env.String\<close> gives \<open>NAME=value\<close> for every record: the value is passed through
  \<open>strconv.Quote\<close> exactly when it contains a double quote, and is written as it is
  otherwise.
\<close>

theorem Env_String_render:
  "Env_String Quote e =
     Name e @ ''='' @ (if CHR 0x22 \<in> set (Value e) then Quote (Value e) else Value e)"
  by (simp add: Env_String_def Contains_single)

section \<open>An absent variable without a default\<close>

text \<open>
  When the variable is absent and no default is given, the eight \<open>Bind\<close> functions with a
  parser return the record with the empty value and leave the destination as it was: the
  empty string does not parse, and the assignment of the default is guarded by
  \<open>if len(def) > 0\<close>.
\<close>

lemma Bind_absent_no_default:
  assumes "env (Name (new T n name)) = None"
  shows "Value (new T n name) = []
    \<and> BindInt T env n name pInt [] = (new T n name, pInt)
    \<and> BindUint T env n name pUint [] = (new T n name, pUint)
    \<and> BindFloat T atof ftoa env n name pFloat [] = (new T n name, pFloat)
    \<and> BindBool T env n name pBool [] = (new T n name, pBool)
    \<and> BindIP T parse6 string6 env n name pIP [] = (new T n name, pIP)
    \<and> BindIPNet T parse6 string6 env n name pNet [] = (new T n name, pNet)
    \<and> BindTime T parseRest env n name pTime [] = (new T n name, pTime)
    \<and> BindDuration T fracNanos env n name pDur [] = (new T n name, pDur)"
  using assms
  by (simp add: new_Value BindInt_def BindUint_def BindFloat_def BindBool_def BindIP_def
      BindIPNet_def BindTime_def BindDuration_def lookup_absent
      TrimSpace_Nil ParseInt_Nil ParseUint_Nil ParseFloat_Nil switchBool_Nil ParseIP_Nil
      ParseCIDR_Nil time_Parse_Nil ParseDuration_Nil)

lemma Bind_absent_no_default_example:
  "Map.empty (Name (new noCase (NewNamespace noCase ''app'') ''max retries'')) = None
    \<and> BindInt noCase Map.empty (NewNamespace noCase ''app'') ''max retries'' 7 []
        = (\<lparr>Name = ''APP_MAX_RETRIES'', Value = []\<rparr>, 7)
    \<and> BindUint noCase Map.empty (NewNamespace noCase ''app'') ''max retries'' 7 []
        = (\<lparr>Name = ''APP_MAX_RETRIES'', Value = []\<rparr>, 7)
    \<and> BindFloat noCase (\<lambda>v. Some (0::int)) (\<lambda>f. ''0'') Map.empty
          (NewNamespace noCase ''app'') ''max retries'' 7 []
        = (\<lparr>Name = ''APP_MAX_RETRIES'', Value = []\<rparr>, 7)
    \<and> BindBool noCase Map.empty (NewNamespace noCase ''app'') ''max retries'' True []
        = (\<lparr>Name = ''APP_MAX_RETRIES'', Value = []\<rparr>, True)
    \<and> BindIP noCase (\<lambda>v. Some 1) (\<lambda>a. ''::1'') Map.empty (NewNamespace noCase ''app'')
          ''max retries'' [10, 0, 0, 1] []
        = (\<lparr>Name = ''APP_MAX_RETRIES'', Value = []\<rparr>, [10, 0, 0, 1])
    \<and> BindIPNet noCase (\<lambda>v. Some 1) (\<lambda>a. ''::1'') Map.empty (NewNamespace noCase ''app'')
          ''max retries'' \<lparr>IP = [10, 0, 0, 0], Mask = [255, 0, 0, 0]\<rparr> []
        = (\<lparr>Name = ''APP_MAX_RETRIES'', Value = []\<rparr>,
           \<lparr>IP = [10, 0, 0, 0], Mask = [255, 0, 0, 0]\<rparr>)
    \<and> BindTime noCase (\<lambda>v. Some gopherTime) Map.empty (NewNamespace noCase ''app'')
          ''max retries'' gopherTime []
        = (\<lparr>Name = ''APP_MAX_RETRIES'', Value = []\<rparr>, gopherTime)
    \<and> BindDuration noCase exactNanos Map.empty (NewNamespace noCase ''app'')
          ''max retries'' 7 []
        = (\<lparr>Name = ''APP_MAX_RETRIES'', Value = []\<rparr>, 7)"
  using Bind_absent_no_default [where env = Map.empty and T = noCase
      and n = "NewNamespace noCase ''app''" and name = "''max retries''"
      and pInt = 7 and pUint = 7 and atof = "\<lambda>v. Some (0::int)" and ftoa = "\<lambda>f. ''0''"
      and pFloat = 7 and pBool = True and ?parse6.0 = "\<lambda>v. Some 1" and ?string6.0 = "\<lambda>a. ''::1''"
      and pIP = "[10, 0, 0, 1]" and pNet = "\<lparr>IP = [10, 0, 0, 0], Mask = [255, 0, 0, 0]\<rparr>"
      and parseRest = "\<lambda>v. Some gopherTime" and pTime = gopherTime
      and fracNanos = exactNanos and pDur = 7]
  by (simp add: new_example)

text \<open>
  C1 does not hold of \<open>BindString\<close>. Its last statement \<open>*ptr = e.Value\<close> has no guard: with
  the variable \<open>APP_HOME\<close> absent and no default, a destination that holds \<open>/root\<close> before
  the call holds the empty string afterwards, where the claim and the eight other
  functions leave it alone.
\<close>

theorem BindString_absent_counterexample:
  "BindString noCase Map.empty (NewNamespace noCase ''app'') ''home'' ''/root'' []
     = (\<lparr>Name = ''APP_HOME'', Value = []\<rparr>, [])"
  by code_simp

section \<open>A present variable that does not parse\<close>

lemma lookup_present_new:
  "env (Name (new T n name)) = Some v \<Longrightarrow>
   lookup env (new T n name) def format = \<lparr>Name = Name (new T n name), Value = v\<rparr>"
  by (simp add: lookup_present new_def)

lemma BindInt_malformed:
  "env (Name (new T n name)) = Some v \<Longrightarrow> isl (ParseInt v) \<Longrightarrow>
   BindInt T env n name ptr def
     = (\<lparr>Name = Name (new T n name), Value = v\<rparr>, case def of [] \<Rightarrow> ptr | d # _ \<Rightarrow> d)"
  by (cases def; cases "ParseInt v") (simp_all add: BindInt_def lookup_present_new)

lemma BindUint_malformed:
  "env (Name (new T n name)) = Some v \<Longrightarrow> isl (ParseUint v) \<Longrightarrow>
   BindUint T env n name ptr def
     = (\<lparr>Name = Name (new T n name), Value = v\<rparr>, case def of [] \<Rightarrow> ptr | d # _ \<Rightarrow> d)"
  by (cases def; cases "ParseUint v") (simp_all add: BindUint_def lookup_present_new)

lemma BindFloat_malformed:
  "env (Name (new T n name)) = Some v \<Longrightarrow> ParseFloat atof v = None \<Longrightarrow>
   BindFloat T atof ftoa env n name ptr def
     = (\<lparr>Name = Name (new T n name), Value = v\<rparr>, case def of [] \<Rightarrow> ptr | d # _ \<Rightarrow> d)"
  by (cases def) (simp_all add: BindFloat_def lookup_present_new)

lemma BindBool_malformed:
  "env (Name (new T n name)) = Some v \<Longrightarrow> switchBool T v = None \<Longrightarrow>
   BindBool T env n name ptr def
     = (\<lparr>Name = Name (new T n name), Value = v\<rparr>, case def of [] \<Rightarrow> ptr | d # _ \<Rightarrow> d)"
  by (cases def) (simp_all add: BindBool_def lookup_present_new)

lemma BindIP_malformed:
  "env (Name (new T n name)) = Some v \<Longrightarrow> ParseIP parse6 (TrimSpace v) = [] \<Longrightarrow>
   BindIP T parse6 string6 env n name ptr def
     = (\<lparr>Name = Name (new T n name), Value = v\<rparr>, case def of [] \<Rightarrow> ptr | d # _ \<Rightarrow> d)"
  by (cases def) (simp_all add: BindIP_def lookup_present_new)

lemma BindIPNet_malformed:
  "env (Name (new T n name)) = Some v \<Longrightarrow> ParseCIDR parse6 (TrimSpace v) = None \<Longrightarrow>
   BindIPNet T parse6 string6 env n name ptr def
     = (\<lparr>Name = Name (new T n name), Value = v\<rparr>, case def of [] \<Rightarrow> ptr | d # _ \<Rightarrow> d)"
  by (cases def) (simp_all add: BindIPNet_def lookup_present_new)

lemma BindTime_malformed:
  "env (Name (new T n name)) = Some v \<Longrightarrow> time_Parse parseRest (TrimSpace v) = None \<Longrightarrow>
   BindTime T parseRest env n name ptr def
     = (\<lparr>Name = Name (new T n name), Value = v\<rparr>, case def of [] \<Rightarrow> ptr | d # _ \<Rightarrow> d)"
  by (cases def) (simp_all add: BindTime_def lookup_present_new)

lemma BindDuration_malformed:
  "env (Name (new T n name)) = Some v \<Longrightarrow> ParseDuration fracNanos (TrimSpace v) = None \<Longrightarrow>
   BindDuration T fracNanos env n name ptr def
     = (\<lparr>Name = Name (new T n name), Value = v\<rparr>, case def of [] \<Rightarrow> ptr | d # _ \<Rightarrow> d)"
  by (cases def) (simp_all add: BindDuration_def lookup_present_new)

text \<open>
  C5. When the variable is present and its value does not parse, every typed \<open>Bind\<close>
  function returns the record with the raw value of the environment, and the destination
  holds the first default when one is supplied (the typed value itself, whatever its
  formatted form would parse to) and its value from before the call when none is.
\<close>

theorem Bind_malformed:
  assumes "env (Name (new T n name)) = Some v"
  shows "(isl (ParseInt v) \<longrightarrow>
            BindInt T env n name pInt dInt
              = (\<lparr>Name = Name (new T n name), Value = v\<rparr>,
                 case dInt of [] \<Rightarrow> pInt | d # _ \<Rightarrow> d))
       \<and> (isl (ParseUint v) \<longrightarrow>
            BindUint T env n name pUint dUint
              = (\<lparr>Name = Name (new T n name), Value = v\<rparr>,
                 case dUint of [] \<Rightarrow> pUint | d # _ \<Rightarrow> d))
       \<and> (ParseFloat atof v = None \<longrightarrow>
            BindFloat T atof ftoa env n name pFloat dFloat
              = (\<lparr>Name = Name (new T n name), Value = v\<rparr>,
                 case dFloat of [] \<Rightarrow> pFloat | d # _ \<Rightarrow> d))
       \<and> (switchBool T v = None \<longrightarrow>
            BindBool T env n name pBool dBool
              = (\<lparr>Name = Name (new T n name), Value = v\<rparr>,
                 case dBool of [] \<Rightarrow> pBool | d # _ \<Rightarrow> d))
       \<and> (ParseIP parse6 (TrimSpace v) = [] \<longrightarrow>
            BindIP T parse6 string6 env n name pIP dIP
              = (\<lparr>Name = Name (new T n name), Value = v\<rparr>,
                 case dIP of [] \<Rightarrow> pIP | d # _ \<Rightarrow> d))
       \<and> (ParseCIDR parse6 (TrimSpace v) = None \<longrightarrow>
            BindIPNet T parse6 string6 env n name pNet dNet
              = (\<lparr>Name = Name (new T n name), Value = v\<rparr>,
                 case dNet of [] \<Rightarrow> pNet | d # _ \<Rightarrow> d))
       \<and> (time_Parse parseRest (TrimSpace v) = None \<longrightarrow>
            BindTime T parseRest env n name pTime dTime
              = (\<lparr>Name = Name (new T n name), Value = v\<rparr>,
                 case dTime of [] \<Rightarrow> pTime | d # _ \<Rightarrow> d))
       \<and> (ParseDuration fracNanos (TrimSpace v) = None \<longrightarrow>
            BindDuration T fracNanos env n name pDur dDur
              = (\<lparr>Name = Name (new T n name), Value = v\<rparr>,
                 case dDur of [] \<Rightarrow> pDur | d # _ \<Rightarrow> d))"
proof (intro conjI impI)
  show "BindInt T env n name pInt dInt
      = (\<lparr>Name = Name (new T n name), Value = v\<rparr>, case dInt of [] \<Rightarrow> pInt | d # _ \<Rightarrow> d)"
    if "isl (ParseInt v)"
    using assms that by (rule BindInt_malformed)
  show "BindUint T env n name pUint dUint
      = (\<lparr>Name = Name (new T n name), Value = v\<rparr>, case dUint of [] \<Rightarrow> pUint | d # _ \<Rightarrow> d)"
    if "isl (ParseUint v)"
    using assms that by (rule BindUint_malformed)
  show "BindFloat T atof ftoa env n name pFloat dFloat
      = (\<lparr>Name = Name (new T n name), Value = v\<rparr>, case dFloat of [] \<Rightarrow> pFloat | d # _ \<Rightarrow> d)"
    if "ParseFloat atof v = None"
    using assms that by (rule BindFloat_malformed)
  show "BindBool T env n name pBool dBool
      = (\<lparr>Name = Name (new T n name), Value = v\<rparr>, case dBool of [] \<Rightarrow> pBool | d # _ \<Rightarrow> d)"
    if "switchBool T v = None"
    using assms that by (rule BindBool_malformed)
  show "BindIP T parse6 string6 env n name pIP dIP
      = (\<lparr>Name = Name (new T n name), Value = v\<rparr>, case dIP of [] \<Rightarrow> pIP | d # _ \<Rightarrow> d)"
    if "ParseIP parse6 (TrimSpace v) = []"
    using assms that by (rule BindIP_malformed)
  show "BindIPNet T parse6 string6 env n name pNet dNet
      = (\<lparr>Name = Name (new T n name), Value = v\<rparr>, case dNet of [] \<Rightarrow> pNet | d # _ \<Rightarrow> d)"
    if "ParseCIDR parse6 (TrimSpace v) = None"
    using assms that by (rule BindIPNet_malformed)
  show "BindTime T parseRest env n name pTime dTime
      = (\<lparr>Name = Name (new T n name), Value = v\<rparr>, case dTime of [] \<Rightarrow> pTime | d # _ \<Rightarrow> d)"
    if "time_Parse parseRest (TrimSpace v) = None"
    using assms that by (rule BindTime_malformed)
  show "BindDuration T fracNanos env n name pDur dDur
      = (\<lparr>Name = Name (new T n name), Value = v\<rparr>, case dDur of [] \<Rightarrow> pDur | d # _ \<Rightarrow> d)"
    if "ParseDuration fracNanos (TrimSpace v) = None"
    using assms that by (rule BindDuration_malformed)
qed

lemma malformed_example:
  "isl (ParseInt ''x!'') \<and> isl (ParseUint ''x!'') \<and> ParseFloat (\<lambda>v. Some (0::int)) ''x!'' = None
   \<and> switchBool noCase ''x!'' = None \<and> ParseIP (\<lambda>v. Some 1) (TrimSpace ''x!'') = []
   \<and> ParseCIDR (\<lambda>v. Some 1) (TrimSpace ''x!'') = None
   \<and> time_Parse (\<lambda>v. Some gopherTime) (TrimSpace ''x!'') = None
   \<and> ParseDuration exactNanos (TrimSpace ''x!'') = None"
  by code_simp


lemma env_example:
  "[''APP_MAX_RETRIES'' \<mapsto> v] (Name (new noCase (NewNamespace noCase ''app'') ''max retries'')) = Some v"
  by (simp add: new_example)

theorem Bind_malformed_witness:
  "isl (ParseInt ''x!'') \<and> isl (ParseUint ''x!'') \<and> ParseFloat (\<lambda>v. Some (0::int)) ''x!'' = None
    \<and> switchBool noCase ''x!'' = None \<and> ParseIP (\<lambda>v. Some 1) (TrimSpace ''x!'') = []
    \<and> ParseCIDR (\<lambda>v. Some 1) (TrimSpace ''x!'') = None
    \<and> time_Parse (\<lambda>v. Some gopherTime) (TrimSpace ''x!'') = None
    \<and> ParseDuration exactNanos (TrimSpace ''x!'') = None
    \<and> BindInt noCase [''APP_MAX_RETRIES'' \<mapsto> ''x!''] (NewNamespace noCase ''app'') ''max retries'' 7 [3]
        = (\<lparr>Name = ''APP_MAX_RETRIES'', Value = ''x!''\<rparr>, 3)
    \<and> BindUint noCase [''APP_MAX_RETRIES'' \<mapsto> ''x!''] (NewNamespace noCase ''app'') ''max retries'' 7 []
        = (\<lparr>Name = ''APP_MAX_RETRIES'', Value = ''x!''\<rparr>, 7)
    \<and> BindFloat noCase (\<lambda>v. Some (0::int)) (\<lambda>f. ''0'') [''APP_MAX_RETRIES'' \<mapsto> ''x!'']
          (NewNamespace noCase ''app'') ''max retries'' 7 [3]
        = (\<lparr>Name = ''APP_MAX_RETRIES'', Value = ''x!''\<rparr>, 3)
    \<and> BindBool noCase [''APP_MAX_RETRIES'' \<mapsto> ''x!''] (NewNamespace noCase ''app'') ''max retries''
          False [True]
        = (\<lparr>Name = ''APP_MAX_RETRIES'', Value = ''x!''\<rparr>, True)
    \<and> BindIP noCase (\<lambda>v. Some 1) (\<lambda>a. ''::1'') [''APP_MAX_RETRIES'' \<mapsto> ''x!'']
          (NewNamespace noCase ''app'') ''max retries'' [] [[10, 0, 0, 1]]
        = (\<lparr>Name = ''APP_MAX_RETRIES'', Value = ''x!''\<rparr>, [10, 0, 0, 1])
    \<and> BindIPNet noCase (\<lambda>v. Some 1) (\<lambda>a. ''::1'') [''APP_MAX_RETRIES'' \<mapsto> ''x!'']
          (NewNamespace noCase ''app'') ''max retries'' \<lparr>IP = [], Mask = []\<rparr>
          [\<lparr>IP = [10, 0, 0, 0], Mask = [255, 0, 0, 0]\<rparr>]
        = (\<lparr>Name = ''APP_MAX_RETRIES'', Value = ''x!''\<rparr>, \<lparr>IP = [10, 0, 0, 0], Mask = [255, 0, 0, 0]\<rparr>)
    \<and> BindTime noCase (\<lambda>v. Some gopherTime) [''APP_MAX_RETRIES'' \<mapsto> ''x!'']
          (NewNamespace noCase ''app'') ''max retries'' gopherTime []
        = (\<lparr>Name = ''APP_MAX_RETRIES'', Value = ''x!''\<rparr>, gopherTime)
    \<and> BindDuration noCase exactNanos [''APP_MAX_RETRIES'' \<mapsto> ''x!'']
          (NewNamespace noCase ''app'') ''max retries'' 7 [3]
        = (\<lparr>Name = ''APP_MAX_RETRIES'', Value = ''x!''\<rparr>, 3)"
proof -
  note ex = malformed_example
  note th = Bind_malformed [where env = "[''APP_MAX_RETRIES'' \<mapsto> ''x!'']" and T = noCase
      and n = "NewNamespace noCase ''app''" and name = "''max retries''" and v = "''x!''"
      and pInt = 7 and dInt = "[3]" and pUint = 7 and dUint = "[]"
      and atof = "\<lambda>v. Some (0::int)" and ftoa = "\<lambda>f. ''0''" and pFloat = 7 and dFloat = "[3]"
      and pBool = False and dBool = "[True]"
      and ?parse6.0 = "\<lambda>v. Some 1" and ?string6.0 = "\<lambda>a. ''::1''"
      and pIP = "[]" and dIP = "[[10, 0, 0, 1]]"
      and pNet = "\<lparr>IP = [], Mask = []\<rparr>" and dNet = "[\<lparr>IP = [10, 0, 0, 0], Mask = [255, 0, 0, 0]\<rparr>]"
      and parseRest = "\<lambda>v. Some gopherTime" and pTime = gopherTime and dTime = "[]"
      and fracNanos = exactNanos and pDur = 7 and dDur = "[3]", OF env_example]
  show ?thesis
    using ex th unfolding new_example by simp
qed

section \<open>Two calls in the same environment\<close>













section \<open>Upper case and the derived name\<close>

declare runes.simps [simp del] TrimLeftSpace.simps [simp del] TrimRightSpace.simps [simp del]
  replaceFrom.simps [simp del] sequences.simps [simp del] formatBits.simps [simp del]

lemma runes_Nil [simp]: "runes [] = []"
  by (simp add: runes.simps)

lemma runes_Cons:
  "runes (c # cs) = fst (DecodeRuneInString (c # cs))
     # runes (drop (snd (DecodeRuneInString (c # cs))) (c # cs))"
  by (subst runes.simps) simp

lemma ascii_not_cont: "isASCII c \<Longrightarrow> \<not> cont c"
  by (simp add: isASCII_def cont_def)

lemma DecodeRuneInString_ascii:
  "isASCII c \<Longrightarrow> DecodeRuneInString (c # cs) = (int (byte c), 1)"
  by (simp add: isASCII_def)

lemma DecodeRuneInString_le_length:
  "snd (DecodeRuneInString a) \<le> length a"
  by (cases a) (auto simp: Let_def split: list.splits)

lemma DecodeRuneInString_append_ascii:
  assumes "a \<noteq> []" "isASCII c"
  shows "DecodeRuneInString (a @ c # b) = DecodeRuneInString a"
proof -
  have nc: "\<not> cont c" "\<not> 128 \<le> byte c" "\<not> 144 \<le> byte c" "\<not> 160 \<le> byte c"
    using assms(2) by (simp_all add: isASCII_def cont_def)
  obtain b0 r where a: "a = b0 # r"
    using assms(1) by (cases a) auto
  show ?thesis
  proof (cases r)
    case Nil
    then show ?thesis using nc a by (auto simp: Let_def split: list.splits)
  next
    case (Cons b1 r1)
    note r = this
    show ?thesis
    proof (cases r1)
      case Nil
      then show ?thesis using nc a r by (auto simp: Let_def split: list.splits)
    next
      case (Cons b2 r2)
      note r1 = this
      show ?thesis
      proof (cases r2)
        case Nil
        then show ?thesis using nc a r r1 by (auto simp: Let_def split: list.splits)
      next
        case (Cons b3 r3)
        then show ?thesis using a r r1 by (simp add: Let_def)
      qed
    qed
  qed
qed

lemma runes_append_ascii:
  "isASCII c \<Longrightarrow> runes (a @ c # b) = runes a @ int (byte c) # runes b"
proof (induction a rule: runes.induct)
  case (1 a)
  show ?case
  proof (cases "a = []")
    case True
    then show ?thesis
      using 1(2) by (simp add: runes_Cons DecodeRuneInString_ascii del: DecodeRuneInString.simps)
  next
    case False
    then obtain x xs where a: "a = x # xs" by (cases a) auto
    have d: "DecodeRuneInString (a @ c # b) = DecodeRuneInString a"
      using False 1(2) by (rule DecodeRuneInString_append_ascii)
    have w: "snd (DecodeRuneInString a) \<le> length a"
      by (rule DecodeRuneInString_le_length)
    have "runes (a @ c # b) = fst (DecodeRuneInString a)
        # runes (drop (snd (DecodeRuneInString a)) a @ c # b)"
      using d w by (subst runes.simps) (simp add: False)
    also have "\<dots> = fst (DecodeRuneInString a)
        # (runes (drop (snd (DecodeRuneInString a)) a) @ int (byte c) # runes b)"
      using 1(1) [OF False 1(2)] by simp
    also have "\<dots> = runes a @ int (byte c) # runes b"
      by (subst (2) runes.simps) (simp add: False)
    finally show ?thesis .
  qed
qed

lemma runes_ascii: "list_all isASCII str \<Longrightarrow> runes str = map (\<lambda>c. int (byte c)) str"
  by (induction str) (simp_all add: runes_Cons DecodeRuneInString_ascii del: DecodeRuneInString.simps)

lemma byte_char_of: "n < 256 \<Longrightarrow> byte (char_of n) = n"
  by (simp add: byte_def)

lemma char_of_byte: "char_of (byte c) = c"
  by (simp add: byte_def)

lemma EncodeRune_ascii: "0 \<le> r \<Longrightarrow> r \<le> 127 \<Longrightarrow> EncodeRune r = [char_of r]"
  by (simp add: EncodeRune_def)

lemma char_of_int_nat: "char_of (int n) = char_of n"
  by (simp add: char_of_def bit_simps)

lemma Map_ToUpper_ascii:
  "list_all isASCII str \<Longrightarrow> Map (unicode_ToUpper T) str = map upperASCII str"
proof (induction str)
  case Nil
  then show ?case by (simp add: Map_def)
next
  case (Cons c str)
  have c: "byte c < 128" using Cons.prems by (simp add: isASCII_def)
  have "EncodeRune (unicode_ToUpper T (int (byte c))) = [upperASCII c]"
  proof (cases "97 \<le> byte c \<and> byte c \<le> 122")
    case True
    then have e: "int (byte c) - 32 = int (byte c - 32)" by simp
    have u: "unicode_ToUpper T (int (byte c)) = int (byte c) - 32"
      using True by (simp add: unicode_ToUpper_def)
    have "EncodeRune (int (byte c - 32)) = [char_of (int (byte c - 32))]"
      using True by (intro EncodeRune_ascii) simp_all
    then have "EncodeRune (int (byte c - 32)) = [char_of (byte c - 32)]"
      by (simp only: char_of_int_nat)
    then show ?thesis
      using True by (simp only: u e upperASCII_def if_True simp_thms)
  next
    case False
    then show ?thesis
      using c by (auto simp: unicode_ToUpper_def upperASCII_def EncodeRune_ascii char_of_int_nat char_of_byte)
  qed
  moreover have "0 \<le> unicode_ToUpper T (int (byte c))"
    using c by (simp add: unicode_ToUpper_def)
  ultimately show ?case
    using Cons by (simp add: Map_def runes_ascii Let_def)
qed

lemma ToUpper_Map: "ToUpper T str = Map (unicode_ToUpper T) str"
  by (simp add: ToUpper_def Map_ToUpper_ascii)

lemma Map_append_ascii:
  "isASCII c \<Longrightarrow> Map f (a @ c # b) = Map f a @ Map f [c] @ Map f b"
  by (simp add: Map_def runes_append_ascii runes_Cons DecodeRuneInString_ascii
      del: DecodeRuneInString.simps)

lemma ToUpper_append_ascii:
  "isASCII c \<Longrightarrow> ToUpper T (a @ c # b) = ToUpper T a @ upperASCII c # ToUpper T b"
proof -
  assume c: "isASCII c"
  have "ToUpper T [c] = [upperASCII c]"
    using c by (simp add: ToUpper_def)
  then show ?thesis
    using Map_append_ascii [OF c, of "unicode_ToUpper T" a b] by (simp add: ToUpper_Map)
qed

lemma replaceFrom_space:
  "replaceFrom str '' '' ''_'' = map (\<lambda>c. if c = CHR '' '' then CHR ''_'' else c) str"
  by (induction str) (auto simp: replaceFrom.simps [of "_ # _"] replaceFrom.simps [of "[]"])

lemma ReplaceAll_space:
  "ReplaceAll str '' '' ''_'' = map (\<lambda>c. if c = CHR '' '' then CHR ''_'' else c) str"
  by (simp add: ReplaceAll_def replaceFrom_space)

lemma new_Name:
  "Name (new T n label) = ToUpper T (ns_s n) @ ''_'' @ ToUpper T (ReplaceAll label '' '' ''_'')"
proof -
  have "isASCII (CHR ''_'')" "upperASCII (CHR ''_'') = CHR ''_''"
    by (simp_all add: isASCII_def upperASCII_def byte_def)
  then show ?thesis
    using ToUpper_append_ascii [of "CHR ''_''" T "ns_s n" "ReplaceAll label '' '' ''_''"]
    by (simp add: new_def)
qed

text \<open>
  C7, as the code has it. The derived name is the upper-cased prefix of the namespace, an
  underscore and the upper-cased label with its spaces replaced by underscores, for every
  case table and all byte strings; \<open>NewNamespace\<close> stores its argument normalised in the
  same way. Two derived names whose normalised labels match are equal exactly when the
  upper-cased prefixes are equal.
\<close>

theorem derived_name:
  "Name (new T n label) = ToUpper T (ns_s n) @ ''_'' @ ToUpper T (ReplaceAll label '' '' ''_'')
   \<and> ns_s (NewNamespace T str) = ToUpper T (ReplaceAll str '' '' ''_'')
   \<and> (ToUpper T (ReplaceAll label1 '' '' ''_'') = ToUpper T (ReplaceAll label2 '' '' ''_'') \<longrightarrow>
        (Name (new T n1 label1) = Name (new T n2 label2)
           \<longleftrightarrow> ToUpper T (ns_s n1) = ToUpper T (ns_s n2)))"
  by (simp add: new_Name NewNamespace_def)

lemma derived_name_example:
  "ToUpper noCase (ReplaceAll ''max retries'' '' '' ''_'') = ToUpper noCase (ReplaceAll ''MAX_RETRIES'' '' '' ''_'')
   \<and> ToUpper noCase (ns_s (NewNamespace noCase ''app'')) = ''APP''
   \<and> ToUpper noCase (ns_s (NewNamespace noCase ''App'')) = ''APP''
   \<and> Name (new noCase (NewNamespace noCase ''App'') ''MAX_RETRIES'') = ''APP_MAX_RETRIES''"
  by code_simp

theorem derived_name_witness:
  "ToUpper noCase (ReplaceAll ''max retries'' '' '' ''_'')
     = ToUpper noCase (ReplaceAll ''MAX_RETRIES'' '' '' ''_'')
   \<and> Name (new noCase (NewNamespace noCase ''app'') ''max retries'') = ''APP_MAX_RETRIES''
   \<and> Name (new noCase (NewNamespace noCase ''app'') ''max retries'')
       = Name (new noCase (NewNamespace noCase ''App'') ''MAX_RETRIES'')
   \<and> ToUpper noCase (ns_s (NewNamespace noCase ''app''))
       = ToUpper noCase (ns_s (NewNamespace noCase ''App''))"
  using derived_name [where T = noCase and n = "NewNamespace noCase ''app''"
      and label = "''max retries''" and str = "''app''" and ?label1.0 = "''max retries''"
      and ?label2.0 = "''MAX_RETRIES''" and ?n1.0 = "NewNamespace noCase ''app''"
      and ?n2.0 = "NewNamespace noCase ''App''"] derived_name_example
  by (simp add: new_example)

text \<open>
  Equal names do not need equal prefixes: the underscore that joins prefix and label may
  also come from a space inside one of them.
\<close>

theorem derived_name_counterexample:
  "Name (new noCase (NewNamespace noCase ''a'') ''b c'')
     = Name (new noCase (NewNamespace noCase ''a b'') ''c'')
   \<and> ToUpper noCase ''a'' \<noteq> ToUpper noCase ''a b''
   \<and> ToUpper noCase (ns_s (NewNamespace noCase ''a'')) \<noteq> ToUpper noCase (ns_s (NewNamespace noCase ''a b''))"
  by code_simp

section \<open>The values \<open>BindBool\<close> accepts\<close>

text \<open>
  C6. \<open>BindBool\<close> trims the value and lowers its case; the result is compared with the
  four texts \<open>1\<close>, \<open>true\<close>, \<open>0\<close> and \<open>false\<close>. The first two bind true, the last two
  false; every other value binds the default when one is supplied and leaves the
  destination as it was when none is.
\<close>

theorem BindBool_acceptance:
  assumes "env (Name (new T n name)) = Some v"
  shows "BindBool T env n name ptr def
     = (\<lparr>Name = Name (new T n name), Value = v\<rparr>,
        if ToLower T (TrimSpace v) \<in> {''1'', ''true''} then True
        else if ToLower T (TrimSpace v) \<in> {''0'', ''false''} then False
        else case def of [] \<Rightarrow> ptr | d # _ \<Rightarrow> d)"
  using assms
  by (cases def) (simp_all add: BindBool_def lookup_present_new switchBool_def Let_def)

lemma switchBool_examples:
  "ToLower noCase (TrimSpace '' TrUe  '') = ''true''
   \<and> ToLower noCase (TrimSpace ''FALSE'') = ''false''
   \<and> ToLower noCase (TrimSpace ''yes'') = ''yes''
   \<and> ToLower noCase (TrimSpace ''t r u e'') = ''t r u e''"
  by code_simp

theorem BindBool_acceptance_witness:
  "[''APP_ENABLED'' \<mapsto> '' TrUe  ''] (Name (new noCase (NewNamespace noCase ''app'') ''enabled''))
      = Some '' TrUe  ''
   \<and> BindBool noCase [''APP_ENABLED'' \<mapsto> '' TrUe  ''] (NewNamespace noCase ''app'') ''enabled''
        False [False]
      = (\<lparr>Name = ''APP_ENABLED'', Value = '' TrUe  ''\<rparr>, True)
   \<and> BindBool noCase [''APP_ENABLED'' \<mapsto> ''FALSE''] (NewNamespace noCase ''app'') ''enabled''
        True [True]
      = (\<lparr>Name = ''APP_ENABLED'', Value = ''FALSE''\<rparr>, False)
   \<and> BindBool noCase [''APP_ENABLED'' \<mapsto> ''yes''] (NewNamespace noCase ''app'') ''enabled''
        False [True]
      = (\<lparr>Name = ''APP_ENABLED'', Value = ''yes''\<rparr>, True)
   \<and> BindBool noCase [''APP_ENABLED'' \<mapsto> ''t r u e''] (NewNamespace noCase ''app'') ''enabled''
        False []
      = (\<lparr>Name = ''APP_ENABLED'', Value = ''t r u e''\<rparr>, False)"
proof -
  have n: "new noCase (NewNamespace noCase ''app'') ''enabled''
      = \<lparr>Name = ''APP_ENABLED'', Value = []\<rparr>"
    by code_simp
  have h: "[''APP_ENABLED'' \<mapsto> v] (Name (new noCase (NewNamespace noCase ''app'') ''enabled''))
      = Some v" for v
    by (simp add: n)
  note th = BindBool_acceptance [where T = noCase and n = "NewNamespace noCase ''app''"
      and name = "''enabled''"]
  show ?thesis
    using h [of "'' TrUe  ''"]
      th [where env = "[''APP_ENABLED'' \<mapsto> '' TrUe  '']" and v = "'' TrUe  ''", OF h,
          of False "[False]"]
      th [where env = "[''APP_ENABLED'' \<mapsto> ''FALSE'']" and v = "''FALSE''", OF h,
          of True "[True]"]
      th [where env = "[''APP_ENABLED'' \<mapsto> ''yes'']" and v = "''yes''", OF h,
          of False "[True]"]
      th [where env = "[''APP_ENABLED'' \<mapsto> ''t r u e'']" and v = "''t r u e''", OF h,
          of False "[]"]
    unfolding n by (simp add: switchBool_examples)
qed

section \<open>The text of a \<open>Time\<close> is not in the layout \<open>RFC3339Nano\<close>\<close>

lemma isDigit_digitChar: "d < 10 \<Longrightarrow> isDigit (digitChar d)"
  by (simp add: isDigit_def digitChar_def byte_def)

lemma formatBits_digits: "list_all isDigit (formatBits u)"
proof (induction u rule: formatBits.induct)
  case (1 u)
  show ?case
  proof (cases "u < 10")
    case True
    then show ?thesis by (subst formatBits.simps) (simp add: isDigit_digitChar)
  next
    case False
    then show ?thesis
      using 1 by (subst formatBits.simps) (simp add: isDigit_digitChar)
  qed
qed

lemma formatBits_not_Nil: "formatBits u \<noteq> []"
  by (subst formatBits.simps) simp

lemma appendInt_nonneg:
  assumes "0 \<le> x"
  shows "list_all isDigit (appendInt x w) \<and> w \<le> length (appendInt x w) \<and> appendInt x w \<noteq> []"
proof -
  have z: "isDigit (CHR ''0'')"
    by (simp add: isDigit_def byte_def)
  have d: "\<forall>c \<in> set (formatBits (nat \<bar>x\<bar>)). isDigit c"
    using formatBits_digits [of "nat \<bar>x\<bar>"] by (simp add: list_all_iff)
  show ?thesis
    using assms z d by (auto simp: appendInt_def Let_def formatBits_not_Nil list_all_iff)
qed

lemma appendInt_neg: "x < 0 \<Longrightarrow> hd (appendInt x w) = CHR ''-''"
  by (simp add: appendInt_def Let_def)

lemma not_datePrefix_date:
  assumes Y: "(list_all isDigit Y \<and> 4 \<le> length Y) \<or> hd Y = CHR ''-''" "Y \<noteq> []"
    and M: "list_all isDigit M" "2 \<le> length M"
    and D: "list_all isDigit D" "2 \<le> length D"
  shows "\<not> datePrefix (Y @ ''-'' @ M @ ''-'' @ D @ '' '' @ rest)"
proof
  let ?s = "Y @ ''-'' @ M @ ''-'' @ D @ '' '' @ rest"
  assume p: "datePrefix ?s"
  have nd: "\<not> isDigit (CHR ''-'')" "\<not> isDigit (CHR '' '')"
    by (simp_all add: isDigit_def byte_def)
  have "?s ! 0 = hd Y"
    using Y(2) by (cases Y) simp_all
  then have "hd Y \<noteq> CHR ''-''"
    using p nd by (auto simp: datePrefix_def)
  then have Yd: "list_all isDigit Y" "4 \<le> length Y"
    using Y(1) by auto
  have "length Y = 4"
  proof (rule ccontr)
    assume "length Y \<noteq> 4"
    then have "4 < length Y" using Yd(2) by simp
    then have "?s ! 4 = Y ! 4" "isDigit (Y ! 4)"
      using Yd(1) by (simp_all add: nth_append list_all_length)
    then show False using p nd by (auto simp: datePrefix_def)
  qed
  then have s5: "?s ! (5 + i) = (M @ ''-'' @ D @ '' '' @ rest) ! i" for i
    by (simp add: nth_append)
  have "length M = 2"
  proof (rule ccontr)
    assume "length M \<noteq> 2"
    then have "2 < length M" using M(2) by simp
    then have "?s ! 7 = M ! 2" "isDigit (M ! 2)"
      using s5 [of 2] M(1) by (simp_all add: nth_append list_all_length)
    then show False using p nd by (auto simp: datePrefix_def)
  qed
  then have s8: "?s ! (8 + i) = (D @ '' '' @ rest) ! i" for i
    using s5 [of "3 + i"] by (simp add: nth_append)
  have "?s ! 10 = CHR '' '' \<or> isDigit (?s ! 10)"
  proof (cases "length D = 2")
    case True
    then show ?thesis using s8 [of 2] by (simp add: nth_append)
  next
    case False
    then have "2 < length D" using D(2) by simp
    then show ?thesis using s8 [of 2] D(1) by (simp add: nth_append list_all_length)
  qed
  then show False
    using p by (auto simp: datePrefix_def isDigit_def byte_def)
qed

lemma not_datePrefix_Time_String: "\<not> datePrefix (Time_String t)"
proof -
  have Y: "(list_all isDigit (appendInt (Year t) 4) \<and> 4 \<le> length (appendInt (Year t) 4))
      \<or> hd (appendInt (Year t) 4) = CHR ''-''"
    using appendInt_nonneg [of "Year t" 4] appendInt_neg [of "Year t" 4] by linarith
  have Y0: "appendInt (Year t) 4 \<noteq> []"
    by (simp add: appendInt_def Let_def formatBits_not_Nil)
  have "\<exists>rest. Time_String t = appendInt (Year t) 4 @ ''-'' @ appendInt (int (Month t)) 2 @ ''-''
     @ appendInt (int (Day t)) 2 @ '' '' @ rest"
    unfolding Time_String_def Time_Format_def append_assoc by (rule exI, rule refl)
  then obtain rest where "Time_String t = appendInt (Year t) 4 @ ''-'' @ appendInt (int (Month t)) 2
     @ ''-'' @ appendInt (int (Day t)) 2 @ '' '' @ rest" ..
  then show ?thesis
    using not_datePrefix_date [OF Y Y0, of "appendInt (int (Month t)) 2" "appendInt (int (Day t)) 2" rest]
      appendInt_nonneg [of "int (Month t)" 2] appendInt_nonneg [of "int (Day t)" 2]
    by simp
qed

section \<open>Trimming\<close>

definition asciiSpace :: "char \<Rightarrow> bool" where
  \<comment> \<open>the table \<open>asciiSpace\<close> of package \<open>strings\<close>: tab, line feed, vertical tab, form feed,
      carriage return and space\<close>
  "asciiSpace c = (byte c \<in> {9, 10, 11, 12, 13, 32})"

lemma asciiSpace_isASCII: "asciiSpace c \<Longrightarrow> isASCII c"
  by (auto simp: asciiSpace_def isASCII_def)

lemma IsSpace_ascii: "isASCII c \<Longrightarrow> unicode_IsSpace (int (byte c)) = asciiSpace c"
  by (auto simp: unicode_IsSpace_def asciiSpace_def isASCII_def)

lemma TrimLeftSpace_Nil [simp]: "TrimLeftSpace [] = []"
  by (simp add: TrimLeftSpace.simps)

lemma TrimRightSpace_Nil [simp]: "TrimRightSpace [] = []"
  by (simp add: TrimRightSpace.simps)

lemma TrimLeftSpace_ascii:
  "isASCII c \<Longrightarrow> TrimLeftSpace (c # cs) = (if asciiSpace c then TrimLeftSpace cs else c # cs)"
  by (subst TrimLeftSpace.simps)
    (simp add: DecodeRuneInString_ascii IsSpace_ascii del: DecodeRuneInString.simps)

lemma DecodeLastRuneInString_ascii:
  "isASCII c \<Longrightarrow> DecodeLastRuneInString (cs @ [c]) = (int (byte c), 1)"
  by (simp add: DecodeLastRuneInString_def)


lemma TrimRightSpace_take: "\<exists>k. TrimRightSpace str = take k str"
proof (induction str rule: TrimRightSpace.induct)
  case (1 str)
  show ?case
  proof (cases "str \<noteq> [] \<and> unicode_IsSpace (fst (DecodeLastRuneInString str))")
    case True
    then obtain k where "TrimRightSpace (take (length str - max 1 (snd (DecodeLastRuneInString str))) str)
        = take k (take (length str - max 1 (snd (DecodeLastRuneInString str))) str)"
      using 1 by blast
    then have "TrimRightSpace str
        = take (min k (length str - max 1 (snd (DecodeLastRuneInString str)))) str"
      using True by (subst TrimRightSpace.simps) (simp add: min.commute)
    then show ?thesis ..
  next
    case False
    then have "TrimRightSpace str = take (length str) str"
      by (subst TrimRightSpace.simps) auto
    then show ?thesis ..
  qed
qed

subsection \<open>The text of a \<open>Time\<close>, trimmed\<close>

lemma datePrefix_take: "datePrefix (take k v) \<Longrightarrow> datePrefix v"
  by (auto simp: datePrefix_def)

lemma TrimLeftSpace_Time_String: "TrimLeftSpace (Time_String t) = Time_String t"
proof -
  obtain c cs where s: "appendInt (Year t) 4 = c # cs" "isASCII c" "\<not> asciiSpace c"
  proof (cases "Year t < 0")
    case True
    then have "appendInt (Year t) 4 = CHR ''-'' # replicate (4 - length (formatBits (nat \<bar>Year t\<bar>))) (CHR ''0'')
        @ formatBits (nat \<bar>Year t\<bar>)"
      by (simp add: appendInt_def Let_def)
    then show ?thesis
      using that by (simp add: isASCII_def asciiSpace_def byte_def)
  next
    case False
    then have a: "list_all isDigit (appendInt (Year t) 4)" "appendInt (Year t) 4 \<noteq> []"
      using appendInt_nonneg [of "Year t" 4] by simp_all
    then obtain c cs where "appendInt (Year t) 4 = c # cs" by (cases "appendInt (Year t) 4") auto
    then show ?thesis
      using that a by (auto simp: isDigit_def isASCII_def asciiSpace_def)
  qed
  then show ?thesis
    unfolding Time_String_def Time_Format_def append_assoc
    by (simp add: TrimLeftSpace_ascii)
qed

lemma time_Parse_Time_String: "time_Parse parseRest (TrimSpace (Time_String t)) = None"
proof -
  obtain k where "TrimSpace (Time_String t) = take k (Time_String t)"
    using TrimRightSpace_take [of "Time_String t"] by (auto simp: TrimSpace_def TrimLeftSpace_Time_String)
  then have "\<not> datePrefix (TrimSpace (Time_String t))"
    using datePrefix_take [of k "Time_String t"] not_datePrefix_Time_String [of t] by auto
  then show ?thesis
    by (simp add: time_Parse_def)
qed

section \<open>Formatting and parsing integers\<close>











section \<open>An absent variable with a default\<close>


lemma lookup_absent_default:
  "env (Name (new T n name)) = None \<Longrightarrow>
   lookup env (new T n name) (d # ds) format = \<lparr>Name = Name (new T n name), Value = format d\<rparr>"
  by (simp add: lookup_absent new_def)





lemma BindTime_absent_default:
  "env (Name (new T n name)) = None \<Longrightarrow>
   BindTime T parseRest env n name ptr (d # ds)
     = (\<lparr>Name = Name (new T n name), Value = Time_String d\<rparr>, d)"
  by (simp add: BindTime_def lookup_absent_default time_Parse_Time_String)





text \<open>
  C4. \<open>BindTime\<close> writes a default with \<open>Time.String\<close>, whose text has a space where
  the layout \<open>RFC3339Nano\<close> has the letter \<open>T\<close>. So when the variable is absent the text
  of the default does not parse, whatever the default is: the record holds that text, and
  the destination receives the default itself through the branch for a failed parse.
\<close>

theorem BindTime_default_not_reparsed:
  assumes "env (Name (new T n name)) = None"
  shows "time_Parse parseRest (TrimSpace (Time_String d)) = None
    \<and> BindTime T parseRest env n name ptr (d # ds)
        = (\<lparr>Name = Name (new T n name), Value = Time_String d\<rparr>, d)"
  using assms by (simp add: time_Parse_Time_String BindTime_absent_default)

lemma Time_String_example: "Time_String gopherTime = ''2009-11-10 23:00:00 +0000 UTC''"
  by code_simp

theorem BindTime_default_not_reparsed_witness:
  "Map.empty (Name (new noCase (NewNamespace noCase ''app'') ''max retries'')) = None
   \<and> time_Parse (\<lambda>v. Some gopherTime) (TrimSpace ''2009-11-10 23:00:00 +0000 UTC'') = None
   \<and> BindTime noCase (\<lambda>v. Some gopherTime) Map.empty (NewNamespace noCase ''app'')
        ''max retries'' (gopherTime\<lparr>Year := 1970\<rparr>) [gopherTime]
      = (\<lparr>Name = ''APP_MAX_RETRIES'', Value = ''2009-11-10 23:00:00 +0000 UTC''\<rparr>, gopherTime)"
  using BindTime_default_not_reparsed [where env = Map.empty and T = noCase
      and n = "NewNamespace noCase ''app''" and name = "''max retries''"
      and parseRest = "\<lambda>v. Some gopherTime" and d = gopherTime and ds = "[]"
      and ptr = "gopherTime\<lparr>Year := 1970\<rparr>"]
  by (simp add: new_example Time_String_example)

section \<open>White space around a value\<close>

lemma parseUintLoop_digits: "parseUintLoop a str = Inr r \<Longrightarrow> list_all isDigit str"
  by (induction str arbitrary: a) (auto simp: Let_def split: if_splits)

lemma ParseUint_digits: "ParseUint str = Inr r \<Longrightarrow> list_all isDigit str"
  by (auto simp: ParseUint_def dest: parseUintLoop_digits split: if_splits)

lemma ParseInt_chars:
  assumes "ParseInt str = Inr r"
  shows "\<forall>c \<in> set str. isDigit c \<or> c = CHR ''+'' \<or> c = CHR ''-''"
proof -
  obtain c cs where s: "str = c # cs"
    using assms by (cases str) (auto simp: ParseInt_def)
  let ?t = "if c = CHR ''+'' \<or> c = CHR ''-'' then cs else str"
  obtain un where "ParseUint ?t = Inr un"
    using assms unfolding s ParseInt_def
    by (auto simp: Let_def split: sum.splits NumError.splits if_splits)
  then have "list_all isDigit ?t"
    by (rule ParseUint_digits)
  then show ?thesis
    unfolding s by (auto simp: list_all_iff split: if_splits)
qed

text \<open>
  The white space that \<open>strings.TrimSpace\<close> removes is every rune that \<open>unicode.IsSpace\<close>
  accepts, in its UTF-8 encoding: six of them are ASCII characters, two take two bytes and
  seventeen take three.
\<close>

definition encodeRunes :: "rune list \<Rightarrow> string" where
  \<comment> \<open>the conversion \<open>string(rs)\<close> of a slice of runes\<close>
  "encodeRunes rs = concat (map EncodeRune rs)"

lemma IsSpace_cases:
  assumes "unicode_IsSpace r"
  shows "r \<in> {9, 10, 11, 12, 13, 32, 133, 160, 5760, 8192, 8193, 8194, 8195, 8196, 8197, 8198,
    8199, 8200, 8201, 8202, 8232, 8233, 8239, 8287, 12288}"
proof -
  have "r \<in> {8192, 8193, 8194, 8195, 8196, 8197, 8198, 8199, 8200, 8201, 8202}"
    if "8192 \<le> r" "r \<le> 8202"
    using that by (simp only: insert_iff empty_iff) presburger
  then show ?thesis
    using assms unfolding unicode_IsSpace_def by auto
qed

lemma EncodeRune_space:
  assumes "unicode_IsSpace r"
  shows "(r, EncodeRune r) \<in> {(9, [CHR 0x09]), (10, [CHR 0x0A]), (11, [CHR 0x0B]), (12, [CHR 0x0C]),
    (13, [CHR 0x0D]), (32, [CHR 0x20]),
    (133, [CHR 0xC2, CHR 0x85]), (160, [CHR 0xC2, CHR 0xA0]), (5760, [CHR 0xE1, CHR 0x9A, CHR 0x80]),
    (8192, [CHR 0xE2, CHR 0x80, CHR 0x80]), (8193, [CHR 0xE2, CHR 0x80, CHR 0x81]),
    (8194, [CHR 0xE2, CHR 0x80, CHR 0x82]), (8195, [CHR 0xE2, CHR 0x80, CHR 0x83]),
    (8196, [CHR 0xE2, CHR 0x80, CHR 0x84]), (8197, [CHR 0xE2, CHR 0x80, CHR 0x85]),
    (8198, [CHR 0xE2, CHR 0x80, CHR 0x86]), (8199, [CHR 0xE2, CHR 0x80, CHR 0x87]),
    (8200, [CHR 0xE2, CHR 0x80, CHR 0x88]), (8201, [CHR 0xE2, CHR 0x80, CHR 0x89]),
    (8202, [CHR 0xE2, CHR 0x80, CHR 0x8A]), (8232, [CHR 0xE2, CHR 0x80, CHR 0xA8]),
    (8233, [CHR 0xE2, CHR 0x80, CHR 0xA9]), (8239, [CHR 0xE2, CHR 0x80, CHR 0xAF]),
    (8287, [CHR 0xE2, CHR 0x81, CHR 0x9F]), (12288, [CHR 0xE3, CHR 0x80, CHR 0x80])}"
  using IsSpace_cases [OF assms]
  by (simp only: insert_iff empty_iff) (elim disjE; simp add: EncodeRune_def RuneError_def char_of_eq_iff)

lemma DecodeRuneInString_EncodeRune_space:
  assumes "unicode_IsSpace r"
  shows "DecodeRuneInString (EncodeRune r @ rest) = (r, length (EncodeRune r))"
  using EncodeRune_space [OF assms]
  by (simp only: insert_iff empty_iff prod.inject)
    (elim disjE conjE; simp add: Let_def byte_def cont_def payload_def)

lemma DecodeLast2:
  assumes "\<not> cont b0" "cont b1"
  shows "DecodeLastRuneInString (s @ [b0, b1])
     = (let rs = DecodeRuneInString [b0, b1] in if snd rs \<noteq> 2 then (RuneError, 1) else rs)"
proof -
  have a: "\<not> isASCII b1" using assms(2) by (simp add: cont_def isASCII_def)
  have n: "(s @ [b0, b1]) ! length s = b0" by (simp add: nth_append)
  have c: "filter (\<lambda>i. RuneStart ((s @ [b0, b1]) ! i)) (rev [length s + 2 - 4 ..< length s + 2 - 1])
      = length s # filter (\<lambda>i. RuneStart ((s @ [b0, b1]) ! i)) (rev [length s + 2 - 4 ..< length s])"
    using assms(1) n by (simp add: RuneStart_def)
  show ?thesis
    using a c by (simp add: DecodeLastRuneInString_def Let_def del: DecodeRuneInString.simps)
qed

lemma DecodeLast3:
  assumes "\<not> cont b0" "cont b1" "cont b2"
  shows "DecodeLastRuneInString (s @ [b0, b1, b2])
     = (let rs = DecodeRuneInString [b0, b1, b2] in if snd rs \<noteq> 3 then (RuneError, 1) else rs)"
proof -
  have a: "\<not> isASCII b2" using assms(3) by (simp add: cont_def isASCII_def)
  have n: "(s @ [b0, b1, b2]) ! length s = b0" "(s @ [b0, b1, b2]) ! Suc (length s) = b1"
    by (simp_all add: nth_append)
  have u: "[length s + 3 - 4 ..< length s + 3 - 1] = [length s - 1 ..< length s] @ [length s, Suc (length s)]"
    by (simp add: upt_rec [of "length s"] numeral_2_eq_2 upt_Suc)
  have c: "filter (\<lambda>i. RuneStart ((s @ [b0, b1, b2]) ! i)) (rev [length s + 3 - 4 ..< length s + 3 - 1])
      = length s # filter (\<lambda>i. RuneStart ((s @ [b0, b1, b2]) ! i)) (rev [length s - 1 ..< length s])"
    unfolding u using assms(1,2) n by (simp add: RuneStart_def)
  show ?thesis
    using a c by (simp add: DecodeLastRuneInString_def Let_def del: DecodeRuneInString.simps)
qed

lemma DecodeLastRuneInString_EncodeRune_space:
  assumes "unicode_IsSpace r"
  shows "DecodeLastRuneInString (s @ EncodeRune r) = (r, length (EncodeRune r))"
  using EncodeRune_space [OF assms]
  by (simp only: insert_iff empty_iff prod.inject)
    (elim disjE conjE; simp add: DecodeLastRuneInString_ascii DecodeLast2 DecodeLast3
      isASCII_def Let_def byte_def cont_def payload_def)

lemma EncodeRune_space_bytes:
  assumes "unicode_IsSpace r"
  shows "EncodeRune r \<noteq> [] \<and> \<not> cont (hd (EncodeRune r))
    \<and> (\<forall>c \<in> set (EncodeRune r). \<not> isDigit c \<and> c \<noteq> CHR ''+'' \<and> c \<noteq> CHR ''-'' \<and> \<not> floatChar c)"
  using EncodeRune_space [OF assms]
  by (simp only: insert_iff empty_iff prod.inject)
    (elim disjE conjE; simp add: isDigit_def floatChar_def byte_def cont_def)


lemma DecodeRuneInString_append_start:
  assumes "a \<noteq> []" "\<not> cont c"
  shows "DecodeRuneInString (a @ c # b) = DecodeRuneInString a"
proof -
  have nc: "\<not> (128 \<le> byte c \<and> byte c \<le> 191)"
    using assms(2) by (simp add: cont_def)
  obtain b0 r where a: "a = b0 # r"
    using assms(1) by (cases a) auto
  show ?thesis
  proof (cases r)
    case Nil
    then show ?thesis using nc assms(2) a by (auto simp: Let_def split: list.splits)
  next
    case (Cons b1 r1)
    note r = this
    show ?thesis
    proof (cases r1)
      case Nil
      then show ?thesis using nc assms(2) a r by (auto simp: Let_def split: list.splits)
    next
      case (Cons b2 r2)
      note r1 = this
      show ?thesis
      proof (cases r2)
        case Nil
        then show ?thesis using nc assms(2) a r r1 by (auto simp: Let_def split: list.splits)
      next
        case (Cons b3 r3)
        then show ?thesis using a r r1 by (simp add: Let_def)
      qed
    qed
  qed
qed

lemma encodeRunes_simps [simp]:
  "encodeRunes [] = []" "encodeRunes (r # rs) = EncodeRune r @ encodeRunes rs"
  "encodeRunes (rs @ rs') = encodeRunes rs @ encodeRunes rs'"
  by (simp_all add: encodeRunes_def)

lemma encodeRunes_Nil_iff:
  "list_all unicode_IsSpace rs \<Longrightarrow> encodeRunes rs = [] \<longleftrightarrow> rs = []"
  using EncodeRune_space_bytes by (cases rs) auto

lemma TrimLeftSpace_spaces:
  "list_all unicode_IsSpace ps \<Longrightarrow> TrimLeftSpace (encodeRunes ps @ x) = TrimLeftSpace x"
proof (induction ps)
  case Nil
  then show ?case by simp
next
  case (Cons r ps)
  then have r: "unicode_IsSpace r" by simp
  have "TrimLeftSpace (EncodeRune r @ encodeRunes ps @ x) = TrimLeftSpace (encodeRunes ps @ x)"
    using EncodeRune_space_bytes [OF r]
    by (subst TrimLeftSpace.simps)
      (simp add: DecodeRuneInString_EncodeRune_space [OF r] r del: DecodeRuneInString.simps)
  then show ?case using Cons by simp
qed

lemma TrimRightSpace_spaces:
  "list_all unicode_IsSpace qs \<Longrightarrow> TrimRightSpace (x @ encodeRunes qs) = TrimRightSpace x"
proof (induction qs rule: rev_induct)
  case Nil
  then show ?case by simp
next
  case (snoc r qs)
  then have r: "unicode_IsSpace r" by simp
  have "Suc 0 \<le> length (EncodeRune r)"
    using EncodeRune_space_bytes [OF r] by (cases "EncodeRune r") simp_all
  then have "TrimRightSpace (y @ EncodeRune r) = TrimRightSpace y" for y
    by (subst TrimRightSpace.simps)
      (simp add: DecodeLastRuneInString_EncodeRune_space [OF r] r max_def)
  from this [of "x @ encodeRunes qs"] show ?case using snoc by simp
qed

lemma TrimLeftSpace_append_spaces:
  assumes "list_all unicode_IsSpace qs"
  shows "TrimLeftSpace (v @ encodeRunes qs)
     = (if TrimLeftSpace v = [] then [] else TrimLeftSpace v @ encodeRunes qs)"
proof (induction v rule: TrimLeftSpace.induct)
  case (1 v)
  show ?case
  proof (cases "v = []")
    case True
    then show ?thesis
      using TrimLeftSpace_spaces [OF assms, of "[]"] by simp
  next
    case False
    note ne = this
    show ?thesis
    proof (cases qs)
      case Nil
      then show ?thesis by simp
    next
      case (Cons r qs')
      then have r: "unicode_IsSpace r" using assms by simp
      obtain c q' where q: "encodeRunes qs = c # q'" "\<not> cont c"
        using EncodeRune_space_bytes [OF r] unfolding Cons
        by (cases "EncodeRune r") auto
      have d: "DecodeRuneInString (v @ encodeRunes qs) = DecodeRuneInString v"
        unfolding q(1) using ne q(2) by (rule DecodeRuneInString_append_start)
      have w: "snd (DecodeRuneInString v) \<le> length v"
        by (rule DecodeRuneInString_le_length)
      show ?thesis
      proof (cases "unicode_IsSpace (fst (DecodeRuneInString v))")
        case True
        have "TrimLeftSpace (v @ encodeRunes qs)
            = TrimLeftSpace (drop (snd (DecodeRuneInString v)) v @ encodeRunes qs)"
          using True ne d w by (subst TrimLeftSpace.simps) simp
        moreover have "TrimLeftSpace v = TrimLeftSpace (drop (snd (DecodeRuneInString v)) v)"
          using True ne by (subst TrimLeftSpace.simps) simp
        ultimately show ?thesis
          using 1 [OF conjI [OF ne True]] by simp
      next
        case False
        have "TrimLeftSpace (v @ encodeRunes qs) = v @ encodeRunes qs"
          using False ne d by (subst TrimLeftSpace.simps) simp
        moreover have "TrimLeftSpace v = v"
          using False ne by (subst TrimLeftSpace.simps) simp
        ultimately show ?thesis
          using ne by simp
      qed
    qed
  qed
qed

lemma TrimSpace_spaces:
  assumes "list_all unicode_IsSpace ps" "list_all unicode_IsSpace qs"
  shows "TrimSpace (encodeRunes ps @ v @ encodeRunes qs) = TrimSpace v"
  using TrimLeftSpace_spaces [OF assms(1), of "v @ encodeRunes qs"]
    TrimLeftSpace_append_spaces [OF assms(2), of v]
    TrimRightSpace_spaces [OF assms(2), of "TrimLeftSpace v"]
  by (simp add: TrimSpace_def)

lemma stray_not_number:
  assumes "c \<in> set str" "\<not> isDigit c \<and> c \<noteq> CHR ''+'' \<and> c \<noteq> CHR ''-'' \<and> \<not> floatChar c"
  shows "isl (ParseInt str) \<and> isl (ParseUint str) \<and> ParseFloat atof str = None"
proof -
  have "\<not> list_all isDigit str" "\<not> list_all floatChar str"
    using assms by (auto simp: list_all_iff)
  moreover have "\<not> (\<forall>c \<in> set str. isDigit c \<or> c = CHR ''+'' \<or> c = CHR ''-'')"
    using assms by auto
  ultimately show ?thesis
    using ParseInt_chars [of str] ParseUint_digits [of str]
    by (cases "ParseInt str"; cases "ParseUint str") (auto simp: ParseFloat_def)
qed

lemma spaces_not_number:
  assumes "list_all unicode_IsSpace ps" "list_all unicode_IsSpace qs" "ps @ qs \<noteq> []"
  shows "isl (ParseInt (encodeRunes ps @ v @ encodeRunes qs))
    \<and> isl (ParseUint (encodeRunes ps @ v @ encodeRunes qs))
    \<and> ParseFloat atof (encodeRunes ps @ v @ encodeRunes qs) = None"
proof -
  obtain r where r: "r \<in> set (ps @ qs)" using assms(3) by (cases "ps @ qs") auto
  then have s: "unicode_IsSpace r"
    using assms(1,2) by (auto simp: list_all_iff)
  then obtain c where c: "c \<in> set (EncodeRune r)"
    using EncodeRune_space_bytes [of r] by (cases "EncodeRune r") auto
  then have "c \<in> set (encodeRunes ps @ v @ encodeRunes qs)"
    using r by (auto simp: encodeRunes_def)
  moreover have "\<not> isDigit c \<and> c \<noteq> CHR ''+'' \<and> c \<noteq> CHR ''-'' \<and> \<not> floatChar c"
    using EncodeRune_space_bytes [OF s] c by blast
  ultimately show ?thesis by (rule stray_not_number)
qed


lemma BindBool_value:
  "env (Name (new T n name)) = Some w \<Longrightarrow>
   BindBool T env n name ptr def
     = (\<lparr>Name = Name (new T n name), Value = w\<rparr>,
        case switchBool T w of Some b \<Rightarrow> b | None \<Rightarrow> (case def of [] \<Rightarrow> ptr | d # _ \<Rightarrow> d))"
  by (cases def) (simp_all add: BindBool_def lookup_present_new split: option.splits)

lemma BindIP_value:
  "env (Name (new T n name)) = Some w \<Longrightarrow>
   BindIP T parse6 string6 env n name ptr def
     = (\<lparr>Name = Name (new T n name), Value = w\<rparr>,
        if ParseIP parse6 (TrimSpace w) = [] then (case def of [] \<Rightarrow> ptr | d # _ \<Rightarrow> d)
        else ParseIP parse6 (TrimSpace w))"
  by (cases def) (simp_all add: BindIP_def lookup_present_new Let_def)

lemma BindIPNet_value:
  "env (Name (new T n name)) = Some w \<Longrightarrow>
   BindIPNet T parse6 string6 env n name ptr def
     = (\<lparr>Name = Name (new T n name), Value = w\<rparr>,
        case ParseCIDR parse6 (TrimSpace w) of
          None \<Rightarrow> (case def of [] \<Rightarrow> ptr | d # _ \<Rightarrow> d) | Some (ip, nw) \<Rightarrow> nw)"
  by (cases def) (simp_all add: BindIPNet_def lookup_present_new split: option.splits)

lemma BindTime_value:
  "env (Name (new T n name)) = Some w \<Longrightarrow>
   BindTime T parseRest env n name ptr def
     = (\<lparr>Name = Name (new T n name), Value = w\<rparr>,
        case time_Parse parseRest (TrimSpace w) of
          None \<Rightarrow> (case def of [] \<Rightarrow> ptr | d # _ \<Rightarrow> d) | Some t \<Rightarrow> t)"
  by (cases def) (simp_all add: BindTime_def lookup_present_new split: option.splits)

lemma BindDuration_value:
  "env (Name (new T n name)) = Some w \<Longrightarrow>
   BindDuration T fracNanos env n name ptr def
     = (\<lparr>Name = Name (new T n name), Value = w\<rparr>,
        case ParseDuration fracNanos (TrimSpace w) of
          None \<Rightarrow> (case def of [] \<Rightarrow> ptr | d # _ \<Rightarrow> d) | Some d \<Rightarrow> d)"
  by (cases def) (simp_all add: BindDuration_def lookup_present_new split: option.splits)

text \<open>
  C9. The white space around the value \<open>v\<close> is the UTF-8 text of any runes that
  \<open>unicode.IsSpace\<close> accepts. \<open>BindInt\<close>, \<open>BindUint\<close> and \<open>BindFloat\<close> do not trim: with
  white space before or after it the value does not parse, whatever \<open>v\<close> is, so the
  default is bound when one is supplied and the destination is left alone otherwise.
  \<open>BindBool\<close>, \<open>BindIP\<close>, \<open>BindIPNet\<close>, \<open>BindTime\<close> and \<open>BindDuration\<close> trim before they
  parse: the record keeps the value with its white space, and the destination is what
  the parser makes of \<open>v\<close> without the white space around it, so a \<open>v\<close> that parses is
  bound.
\<close>

theorem Bind_whitespace:
  assumes padded: "env (Name (new T n name)) = Some (encodeRunes ps @ v @ encodeRunes qs)"
    and space: "list_all unicode_IsSpace ps" "list_all unicode_IsSpace qs"
  shows "(ps @ qs \<noteq> [] \<longrightarrow>
            BindInt T env n name pInt dInt
              = (\<lparr>Name = Name (new T n name), Value = encodeRunes ps @ v @ encodeRunes qs\<rparr>,
                 case dInt of [] \<Rightarrow> pInt | d # _ \<Rightarrow> d)
          \<and> BindUint T env n name pUint dUint
              = (\<lparr>Name = Name (new T n name), Value = encodeRunes ps @ v @ encodeRunes qs\<rparr>,
                 case dUint of [] \<Rightarrow> pUint | d # _ \<Rightarrow> d)
          \<and> BindFloat T atof ftoa env n name pFloat dFloat
              = (\<lparr>Name = Name (new T n name), Value = encodeRunes ps @ v @ encodeRunes qs\<rparr>,
                 case dFloat of [] \<Rightarrow> pFloat | d # _ \<Rightarrow> d))
    \<and> BindBool T env n name pBool dBool
        = (\<lparr>Name = Name (new T n name), Value = encodeRunes ps @ v @ encodeRunes qs\<rparr>,
           case switchBool T v of
             Some b \<Rightarrow> b | None \<Rightarrow> (case dBool of [] \<Rightarrow> pBool | d # _ \<Rightarrow> d))
    \<and> BindIP T parse6 string6 env n name pIP dIP
        = (\<lparr>Name = Name (new T n name), Value = encodeRunes ps @ v @ encodeRunes qs\<rparr>,
           if ParseIP parse6 (TrimSpace v) = [] then (case dIP of [] \<Rightarrow> pIP | d # _ \<Rightarrow> d)
           else ParseIP parse6 (TrimSpace v))
    \<and> BindIPNet T parse6 string6 env n name pNet dNet
        = (\<lparr>Name = Name (new T n name), Value = encodeRunes ps @ v @ encodeRunes qs\<rparr>,
           case ParseCIDR parse6 (TrimSpace v) of
             None \<Rightarrow> (case dNet of [] \<Rightarrow> pNet | d # _ \<Rightarrow> d) | Some (ip, nw) \<Rightarrow> nw)
    \<and> BindTime T parseRest env n name pTime dTime
        = (\<lparr>Name = Name (new T n name), Value = encodeRunes ps @ v @ encodeRunes qs\<rparr>,
           case time_Parse parseRest (TrimSpace v) of
             None \<Rightarrow> (case dTime of [] \<Rightarrow> pTime | d # _ \<Rightarrow> d) | Some t \<Rightarrow> t)
    \<and> BindDuration T fracNanos env n name pDur dDur
        = (\<lparr>Name = Name (new T n name), Value = encodeRunes ps @ v @ encodeRunes qs\<rparr>,
           case ParseDuration fracNanos (TrimSpace v) of
             None \<Rightarrow> (case dDur of [] \<Rightarrow> pDur | d # _ \<Rightarrow> d) | Some d \<Rightarrow> d)"
proof (intro conjI impI)
  assume ne: "ps @ qs \<noteq> []"
  note bad = spaces_not_number [OF space ne, of v atof]
  show "BindInt T env n name pInt dInt
      = (\<lparr>Name = Name (new T n name), Value = encodeRunes ps @ v @ encodeRunes qs\<rparr>,
         case dInt of [] \<Rightarrow> pInt | d # _ \<Rightarrow> d)"
    using padded bad [THEN conjunct1] by (rule BindInt_malformed)
  show "BindUint T env n name pUint dUint
      = (\<lparr>Name = Name (new T n name), Value = encodeRunes ps @ v @ encodeRunes qs\<rparr>,
         case dUint of [] \<Rightarrow> pUint | d # _ \<Rightarrow> d)"
    using padded bad [THEN conjunct2, THEN conjunct1] by (rule BindUint_malformed)
  show "BindFloat T atof ftoa env n name pFloat dFloat
      = (\<lparr>Name = Name (new T n name), Value = encodeRunes ps @ v @ encodeRunes qs\<rparr>,
         case dFloat of [] \<Rightarrow> pFloat | d # _ \<Rightarrow> d)"
    using padded bad [THEN conjunct2, THEN conjunct2] by (rule BindFloat_malformed)
next
  note t = TrimSpace_spaces [OF space, of v]
  have sb: "switchBool T (encodeRunes ps @ v @ encodeRunes qs) = switchBool T v"
    by (simp add: switchBool_def t)
  show "BindBool T env n name pBool dBool
      = (\<lparr>Name = Name (new T n name), Value = encodeRunes ps @ v @ encodeRunes qs\<rparr>,
         case switchBool T v of
           Some b \<Rightarrow> b | None \<Rightarrow> (case dBool of [] \<Rightarrow> pBool | d # _ \<Rightarrow> d))"
    unfolding BindBool_value [where env = env and T = T, OF padded] sb by (rule refl)
  show "BindIP T parse6 string6 env n name pIP dIP
      = (\<lparr>Name = Name (new T n name), Value = encodeRunes ps @ v @ encodeRunes qs\<rparr>,
         if ParseIP parse6 (TrimSpace v) = [] then (case dIP of [] \<Rightarrow> pIP | d # _ \<Rightarrow> d)
         else ParseIP parse6 (TrimSpace v))"
    unfolding BindIP_value [where env = env and T = T, OF padded] t by (rule refl)
  show "BindIPNet T parse6 string6 env n name pNet dNet
      = (\<lparr>Name = Name (new T n name), Value = encodeRunes ps @ v @ encodeRunes qs\<rparr>,
         case ParseCIDR parse6 (TrimSpace v) of
           None \<Rightarrow> (case dNet of [] \<Rightarrow> pNet | d # _ \<Rightarrow> d) | Some (ip, nw) \<Rightarrow> nw)"
    unfolding BindIPNet_value [where env = env and T = T, OF padded] t by (rule refl)
  show "BindTime T parseRest env n name pTime dTime
      = (\<lparr>Name = Name (new T n name), Value = encodeRunes ps @ v @ encodeRunes qs\<rparr>,
         case time_Parse parseRest (TrimSpace v) of
           None \<Rightarrow> (case dTime of [] \<Rightarrow> pTime | d # _ \<Rightarrow> d) | Some t \<Rightarrow> t)"
    unfolding BindTime_value [where env = env and T = T, OF padded] t by (rule refl)
  show "BindDuration T fracNanos env n name pDur dDur
      = (\<lparr>Name = Name (new T n name), Value = encodeRunes ps @ v @ encodeRunes qs\<rparr>,
         case ParseDuration fracNanos (TrimSpace v) of
           None \<Rightarrow> (case dDur of [] \<Rightarrow> pDur | d # _ \<Rightarrow> d) | Some d \<Rightarrow> d)"
    unfolding BindDuration_value [where env = env and T = T, OF padded] t by (rule refl)
qed


lemma whitespace_example:
  "list_all unicode_IsSpace [160] \<and> list_all unicode_IsSpace [9, 8232]"
  "encodeRunes [160] = [CHR 0xC2, CHR 0xA0]"
  "encodeRunes [9, 8232] = [CHR 0x09, CHR 0xE2, CHR 0x80, CHR 0xA8]"
  "switchBool noCase ''true'' = Some True"
  "ParseIP (\<lambda>v. None) (TrimSpace ''10.0.0.1'') = v4InV6Prefix @ [10, 0, 0, 1]"
  "time_Parse (\<lambda>v. if v = ''2009-11-10T23:00:00Z'' then Some gopherTime else None)
     (TrimSpace ''2009-11-10T23:00:00Z'') = Some gopherTime"
  "TrimSpace ''5s'' = ''5s''"
  by code_simp+

lemma ParseCIDR_example:
  "ParseCIDR (\<lambda>v. None) (TrimSpace ''10.0.0.0/8'')
     = Some (v4InV6Prefix @ [10, 0, 0, 0], \<lparr>IP = [10, 0, 0, 0], Mask = [255, 0, 0, 0]\<rparr>)"
proof -
  have "TrimSpace ''10.0.0.0/8'' = ''10.0.0.0/8''"
    "ParseAddr (\<lambda>v. None) ''10.0.0.0'' = Some (v4InV6Prefix @ [10, 0, 0, 0], 32)"
    "Cut ''10.0.0.0/8'' (CHR ''/'') = Some (''10.0.0.0'', ''8'')"
    by code_simp+
  moreover have "dtoi ''8'' = (8, 1, True)"
    by (simp add: dtoi_def isDigit_def digitVal_def byte_def)
  moreover have "CIDRMask 8 32 = [255, 0, 0, 0]"
    by (simp add: CIDRMask_def upt_rec)
  moreover have "IP_Mask (v4InV6Prefix @ [10, 0, 0, 0]) [255, 0, 0, 0] = [10, 0, 0, 0]"
    by (simp add: IP_Mask_def v4InV6Prefix_def)
  ultimately show ?thesis
    by (simp add: ParseCIDR_def)
qed

lemma ParseDuration_example: "ParseDuration exactNanos (TrimSpace ''5s'') = Some 5000000000"
proof -
  have "parseTerm exactNanos ''5s'' = Some (5000000000, [])"
    by (simp add: parseTerm_def isDigit_def digitVal_def unitEnd_def unitMap_def byte_def)
  then show ?thesis
    by (simp add: whitespace_example(7) ParseDuration_def)
qed

theorem Bind_whitespace_witness:
  "list_all unicode_IsSpace [160] \<and> list_all unicode_IsSpace [9, 8232] \<and> [160] @ [9, 8232] \<noteq> ([]::rune list)
   \<and> encodeRunes [160] = [CHR 0xC2, CHR 0xA0]
   \<and> encodeRunes [9, 8232] = [CHR 0x09, CHR 0xE2, CHR 0x80, CHR 0xA8]
   \<and> [''APP_MAX_RETRIES'' \<mapsto> encodeRunes [160] @ ''5'' @ encodeRunes [9, 8232]]
        (Name (new noCase (NewNamespace noCase ''app'') ''max retries''))
      = Some (encodeRunes [160] @ ''5'' @ encodeRunes [9, 8232])
   \<and> BindInt noCase [''APP_MAX_RETRIES'' \<mapsto> encodeRunes [160] @ ''5'' @ encodeRunes [9, 8232]]
        (NewNamespace noCase ''app'') ''max retries'' 7 [3]
      = (\<lparr>Name = ''APP_MAX_RETRIES'', Value = encodeRunes [160] @ ''5'' @ encodeRunes [9, 8232]\<rparr>, 3)
   \<and> BindUint noCase [''APP_MAX_RETRIES'' \<mapsto> encodeRunes [160] @ ''5'' @ encodeRunes [9, 8232]]
        (NewNamespace noCase ''app'') ''max retries'' 7 []
      = (\<lparr>Name = ''APP_MAX_RETRIES'', Value = encodeRunes [160] @ ''5'' @ encodeRunes [9, 8232]\<rparr>, 7)
   \<and> BindFloat noCase (\<lambda>v. Some (0::int)) (\<lambda>f. ''0'') [''APP_MAX_RETRIES'' \<mapsto> encodeRunes [160] @ ''5'' @ encodeRunes [9, 8232]]
        (NewNamespace noCase ''app'') ''max retries'' 7 [3]
      = (\<lparr>Name = ''APP_MAX_RETRIES'', Value = encodeRunes [160] @ ''5'' @ encodeRunes [9, 8232]\<rparr>, 3)
   \<and> BindBool noCase [''APP_MAX_RETRIES'' \<mapsto> encodeRunes [160] @ ''true'' @ encodeRunes [9, 8232]]
        (NewNamespace noCase ''app'') ''max retries'' False []
      = (\<lparr>Name = ''APP_MAX_RETRIES'', Value = encodeRunes [160] @ ''true'' @ encodeRunes [9, 8232]\<rparr>, True)
   \<and> BindIP noCase (\<lambda>v. None) (\<lambda>a. []) [''APP_MAX_RETRIES'' \<mapsto> encodeRunes [160] @ ''10.0.0.1'' @ encodeRunes [9, 8232]]
        (NewNamespace noCase ''app'') ''max retries'' [] []
      = (\<lparr>Name = ''APP_MAX_RETRIES'', Value = encodeRunes [160] @ ''10.0.0.1'' @ encodeRunes [9, 8232]\<rparr>, v4InV6Prefix @ [10, 0, 0, 1])
   \<and> BindIPNet noCase (\<lambda>v. None) (\<lambda>a. []) [''APP_MAX_RETRIES'' \<mapsto> encodeRunes [160] @ ''10.0.0.0/8'' @ encodeRunes [9, 8232]]
        (NewNamespace noCase ''app'') ''max retries'' \<lparr>IP = [], Mask = []\<rparr> []
      = (\<lparr>Name = ''APP_MAX_RETRIES'', Value = encodeRunes [160] @ ''10.0.0.0/8'' @ encodeRunes [9, 8232]\<rparr>, \<lparr>IP = [10, 0, 0, 0], Mask = [255, 0, 0, 0]\<rparr>)
   \<and> BindTime noCase (\<lambda>v. if v = ''2009-11-10T23:00:00Z'' then Some gopherTime else None)
        [''APP_MAX_RETRIES'' \<mapsto> encodeRunes [160] @ ''2009-11-10T23:00:00Z'' @ encodeRunes [9, 8232]]
        (NewNamespace noCase ''app'') ''max retries'' (gopherTime\<lparr>Year := 1\<rparr>) []
      = (\<lparr>Name = ''APP_MAX_RETRIES'', Value = encodeRunes [160] @ ''2009-11-10T23:00:00Z'' @ encodeRunes [9, 8232]\<rparr>, gopherTime)
   \<and> BindDuration noCase exactNanos [''APP_MAX_RETRIES'' \<mapsto> encodeRunes [160] @ ''5s'' @ encodeRunes [9, 8232]]
        (NewNamespace noCase ''app'') ''max retries'' 7 [3]
      = (\<lparr>Name = ''APP_MAX_RETRIES'', Value = encodeRunes [160] @ ''5s'' @ encodeRunes [9, 8232]\<rparr>, 5000000000)"
proof -
  have h: "[''APP_MAX_RETRIES'' \<mapsto> w] (Name (new noCase (NewNamespace noCase ''app'') ''max retries''))
      = Some w" for w
    by (simp add: new_example)
  note ex = whitespace_example
  note sp = ex(1) [THEN conjunct1] ex(1) [THEN conjunct2]
  note n = Bind_whitespace [where T = noCase and n = "NewNamespace noCase ''app''"
      and name = "''max retries''" and ps = "[160]" and qs = "[9, 8232]" and v = "''5''"
      and env = "[''APP_MAX_RETRIES'' \<mapsto> encodeRunes [160] @ ''5'' @ encodeRunes [9, 8232]]",
      OF h sp, where pInt = 7 and dInt = "[3]" and pUint = 7 and dUint = "[]"
      and atof = "\<lambda>v. Some (0::int)" and ftoa = "\<lambda>f. ''0''" and pFloat = 7 and dFloat = "[3]", THEN conjunct1, THEN mp]
  note b = Bind_whitespace [where T = noCase and n = "NewNamespace noCase ''app''"
      and name = "''max retries''" and ps = "[160]" and qs = "[9, 8232]" and v = "''true''"
      and env = "[''APP_MAX_RETRIES'' \<mapsto> encodeRunes [160] @ ''true'' @ encodeRunes [9, 8232]]",
      OF h sp, where pBool = False and dBool = "[]", THEN conjunct2, THEN conjunct1]
  note i = Bind_whitespace [where T = noCase and n = "NewNamespace noCase ''app''"
      and name = "''max retries''" and ps = "[160]" and qs = "[9, 8232]" and v = "''10.0.0.1''"
      and env = "[''APP_MAX_RETRIES'' \<mapsto> encodeRunes [160] @ ''10.0.0.1'' @ encodeRunes [9, 8232]]",
      OF h sp, where ?parse6.0 = "\<lambda>v. None" and ?string6.0 = "\<lambda>a. []" and pIP = "[]" and dIP = "[]", THEN conjunct2, THEN conjunct2, THEN conjunct1]
  note c = Bind_whitespace [where T = noCase and n = "NewNamespace noCase ''app''"
      and name = "''max retries''" and ps = "[160]" and qs = "[9, 8232]" and v = "''10.0.0.0/8''"
      and env = "[''APP_MAX_RETRIES'' \<mapsto> encodeRunes [160] @ ''10.0.0.0/8'' @ encodeRunes [9, 8232]]",
      OF h sp, where ?parse6.0 = "\<lambda>v. None" and ?string6.0 = "\<lambda>a. []"
      and pNet = "\<lparr>IP = [], Mask = []\<rparr>" and dNet = "[]", THEN conjunct2, THEN conjunct2, THEN conjunct2, THEN conjunct1]
  note t = Bind_whitespace [where T = noCase and n = "NewNamespace noCase ''app''"
      and name = "''max retries''" and ps = "[160]" and qs = "[9, 8232]" and v = "''2009-11-10T23:00:00Z''"
      and env = "[''APP_MAX_RETRIES'' \<mapsto> encodeRunes [160] @ ''2009-11-10T23:00:00Z'' @ encodeRunes [9, 8232]]",
      OF h sp, where parseRest = "\<lambda>v. if v = ''2009-11-10T23:00:00Z'' then Some gopherTime else None"
      and pTime = "gopherTime\<lparr>Year := 1\<rparr>" and dTime = "[]", THEN conjunct2, THEN conjunct2, THEN conjunct2, THEN conjunct2, THEN conjunct1]
  note d = Bind_whitespace [where T = noCase and n = "NewNamespace noCase ''app''"
      and name = "''max retries''" and ps = "[160]" and qs = "[9, 8232]" and v = "''5s''"
      and env = "[''APP_MAX_RETRIES'' \<mapsto> encodeRunes [160] @ ''5s'' @ encodeRunes [9, 8232]]",
      OF h sp, where fracNanos = exactNanos and pDur = 7 and dDur = "[3]", THEN conjunct2, THEN conjunct2, THEN conjunct2, THEN conjunct2, THEN conjunct2]
  have i': "v4InV6Prefix @ [10, 0, 0, 1] \<noteq> []"
    by (simp add: v4InV6Prefix_def)
  show ?thesis
    using sp ex(2,3) h [of "encodeRunes [160] @ ''5'' @ encodeRunes [9, 8232]"] n b i c t d i'
    unfolding new_example ex(4-6) ParseCIDR_example ParseDuration_example
    by (intro conjI) simp_all
qed

section \<open>Formatting and parsing IPv4 addresses and networks\<close>



























section \<open>Durations: \<open>ParseDuration\<close> reads back what \<open>Duration.String\<close> writes\<close>

text \<open>
  The value of a run of decimal digits, from the value \<open>x\<close> read so far.
\<close>

definition digitsVal :: "nat \<Rightarrow> string \<Rightarrow> nat" where
  \<comment> \<open>the number that the digits \<open>ds\<close> continue from \<open>x\<close>\<close>
  "digitsVal x ds = foldl (\<lambda>a c. a * 10 + digitVal c) x ds"

lemma digitsVal_Nil [simp]: "digitsVal x [] = x"
  by (simp add: digitsVal_def)

lemma digitsVal_Cons [simp]: "digitsVal x (c # cs) = digitsVal (x * 10 + digitVal c) cs"
  by (simp add: digitsVal_def)

lemma digitsVal_snoc [simp]: "digitsVal x (cs @ [c]) = digitsVal x cs * 10 + digitVal c"
  by (simp add: digitsVal_def)

































section \<open>Formatting a value and parsing its text\<close>











section \<open>An absent variable with a default: what the destination holds\<close>




end
